theory Spec2Isabelle
  imports Main "HOL-Library.Monad_Syntax"
begin

section \<open>JavaScript values\<close>

text \<open>
  The service reads every response with \<open>response.json()\<close>, whose result has the static
  type \<open>any\<close>: the code receives whatever JSON value the server sent. Such values are
  modelled by the datatype \<open>json\<close>. A number is kept as its canonical rendering
  (\<open>Number::toString\<close>); the parser never yields \<open>NaN\<close>, and both zeros render as
  \<open>0\<close>. An object is the list of its own properties, read with \<open>map_of\<close>.
  \<open>undefined\<close> is \<open>None\<close> of \<open>json option\<close>.
\<close>

datatype json =
    JNull
  | JBool bool
  | JNum string
  | JStr string
  | JArr "json list"
  | JObj "(string \<times> json) list"

text \<open>
  A thrown value is an instance of \<open>Error\<close> with its message, or anything else. The
  messages of the \<open>TypeError\<close>s that the engine itself raises are chosen by the engine.
\<close>

datatype thrown = ErrorObject string | OtherValue

datatype type_error = NullProperty | NotAFunction | NoPrimitive

text \<open>Truthiness, as \<open>!v\<close>, \<open>v || d\<close> and \<open>v ? a : b\<close> test it.\<close>

fun truthy :: "json option \<Rightarrow> bool" where
  "truthy None = False"
| "truthy (Some JNull) = False"
| "truthy (Some (JBool b)) = b"
| "truthy (Some (JNum r)) = (r \<noteq> ''0'')"
| "truthy (Some (JStr s)) = (s \<noteq> [])"
| "truthy (Some (JArr xs)) = True"
| "truthy (Some (JObj kv)) = True"

text \<open>
  \<open>getProp v n\<close> is the read \<open>v.n\<close> of a property name \<open>n\<close> that no built-in prototype
  defines, on a value \<open>v\<close> other than \<open>null\<close>: an own property of an object, and
  \<open>undefined\<close> everywhere else. \<open>chain v n\<close> is \<open>v?.n\<close>.
\<close>

fun getProp :: "json \<Rightarrow> string \<Rightarrow> json option" where
  "getProp (JObj kv) n = map_of kv n"
| "getProp v n = None"

fun chain :: "json option \<Rightarrow> string \<Rightarrow> json option" where
  "chain None n = None"
| "chain (Some JNull) n = None"
| "chain (Some v) n = getProp v n"

text \<open>
  \<open>toString\<close> is the conversion a template literal applies to a substituted value;
  \<open>None\<close> stands for the \<open>TypeError\<close> it raises. An array is converted by \<open>join\<close>, which
  renders \<open>null\<close> elements as the empty string. An object without an own \<open>toString\<close>
  property inherits the one of \<open>Object.prototype\<close>; an own \<open>toString\<close> property parsed
  from JSON is not callable, and \<open>valueOf\<close> (own and not callable, or inherited and
  returning the object itself) yields no primitive either.
\<close>

fun toString :: "json \<Rightarrow> string option"
  and joinElems :: "json list \<Rightarrow> string option" where
  "toString JNull = Some ''null''"
| "toString (JBool b) = Some (if b then ''true'' else ''false'')"
| "toString (JNum r) = Some r"
| "toString (JStr s) = Some s"
| "toString (JArr xs) = joinElems xs"
| "toString (JObj kv) =
     (if map_of kv ''toString'' \<noteq> None then None else Some ''[object Object]'')"
| "joinElems [] = Some []"
| "joinElems (x # xs) =
     (case (if x = JNull then Some [] else toString x) of
        None \<Rightarrow> None
      | Some s \<Rightarrow>
          (if xs = [] then Some s
           else (case joinElems xs of None \<Rightarrow> None | Some t \<Rightarrow> Some (s @ '','' @ t))))"

text \<open>
  \<open>orElse v d\<close> is \<open>v || d\<close>, and \<open>orDefault v d\<close> is the substitution \<open>${v || d}\<close>
  with a string \<open>d\<close>.
\<close>

fun orElse :: "json option \<Rightarrow> json \<Rightarrow> json" where
  "orElse None d = d"
| "orElse (Some x) d = (if truthy (Some x) then x else d)"

definition orDefault :: "json option \<Rightarrow> string \<Rightarrow> string option" where
  "orDefault v d = toString (orElse v (JStr d))"

text \<open>Decimal rendering of a natural number, as a template literal prints an index.\<close>

fun decimal :: "nat \<Rightarrow> string" where
  "decimal n =
     (if n < 10 then [''0123456789'' ! n]
      else decimal (n div 10) @ [''0123456789'' ! (n mod 10)])"

declare decimal.simps [simp del]

section \<open>The environment of a call\<close>

text \<open>
  A request as \<open>fetch\<close> receives it; the body is the value handed to \<open>JSON.stringify\<close>.
  A response carries its status and the outcome of \<open>response.json()\<close>, which rejects
  when the body cannot be read or is not JSON.
\<close>

record request =
  req_url :: string
  req_method :: string
  req_credentials :: string
  req_headers :: "(string \<times> string) list"
  req_body :: "json option"

record response =
  resp_status :: nat
  resp_json :: "thrown + json"

definition ok :: "response \<Rightarrow> bool" where
  "ok r = (200 \<le> resp_status r \<and> resp_status r \<le> 299)"

text \<open>
  The environment: the name and value pairs of
  \<open>new URLSearchParams(window.location.search)\<close>, the behaviour of \<open>fetch\<close> (it rejects
  with a thrown value or resolves with a response), the clock \<open>Date.now()\<close>, the text of
  the engine's own \<open>TypeError\<close>s, and whether the engine's conversion of a string to a
  number gives a number greater than zero.
\<close>

record env =
  searchParams :: "(string \<times> string) list"
  fetch :: "request \<Rightarrow> thrown + response"
  now :: nat
  typeErrorMessage :: "type_error \<Rightarrow> string"
  stringToNumberPositive :: "string \<Rightarrow> bool"

definition typeError :: "env \<Rightarrow> type_error \<Rightarrow> thrown" where
  "typeError e t = ErrorObject (typeErrorMessage e t)"

section \<open>meetingService.ts\<close>

definition API_BASE_URL :: string where
  "API_BASE_URL = ''https://mom-bot-transcript-service.onrender.com''"

text \<open>\<open>URLSearchParams.get\<close> returns the first value of the name, or \<open>null\<close>.\<close>

definition getTestModeFromUrl :: "env \<Rightarrow> bool" where
  "getTestModeFromUrl e =
     (let testModeParam = map_of (searchParams e) ''test_mode''
      in testModeParam = None \<or> testModeParam = Some ''true'')"

definition baseUrls :: "string list" where
  "baseUrls =
     [''http://localhost:8000/api/v1/analyze'',
      ''http://127.0.0.1:8000/api/v1/analyze'',
      ''http://0.0.0.0:8000/api/v1/analyze'']"

definition getAnalyzeApiUrls :: "env \<Rightarrow> string list" where
  "getAnalyzeApiUrls e =
     (let testMode = getTestModeFromUrl e
      in map (\<lambda>url. url @ ''?test_mode='' @ (if testMode then ''true'' else ''false'')
                       @ ''&llm_timeout=60&user_lookup_timeout=30'') baseUrls)"

subsection \<open>checkAuthStatus\<close>

text \<open>
  The outcome of an \<open>async\<close> function is a sum: \<open>Inl\<close> is a rejected promise with the
  thrown value, \<open>Inr\<close> a resolved one. The body of a \<open>try\<close> block is a function of its
  own, so that the \<open>catch\<close> clause is a case distinction on its outcome. The request
  options \<open>cache\<close> and \<open>mode\<close> are left out of \<open>request\<close>.
\<close>

definition authStatusRequest :: "env \<Rightarrow> request" where
  "authStatusRequest e =
     \<lparr>req_url = API_BASE_URL @ ''/auth/status?t='' @ decimal (now e),
      req_method = ''GET'',
      req_credentials = ''include'',
      req_headers = [(''Cache-Control'', ''no-cache''), (''Pragma'', ''no-cache'')],
      req_body = None\<rparr>"

text \<open>
  Inside the \<open>try\<close> block the body is read and then logged; the log line
  \<open>console.log('Setting auth status to:', data.authenticated)\<close> reads a property of
  \<open>data\<close>, which raises a \<open>TypeError\<close> when \<open>data\<close> is \<open>null\<close>.
\<close>

definition checkAuthStatus_try :: "env \<Rightarrow> thrown + json" where
  "checkAuthStatus_try e =
     (case fetch e (authStatusRequest e) of
        Inl err \<Rightarrow> Inl err
      | Inr response \<Rightarrow>
          (case resp_json response of
             Inl err \<Rightarrow> Inl err
           | Inr d \<Rightarrow> (if d = JNull then Inl (typeError e NullProperty) else Inr d)))"

definition checkAuthStatus :: "env \<Rightarrow> thrown + json" where
  "checkAuthStatus e =
     (case checkAuthStatus_try e of
        Inl err \<Rightarrow> Inr (JObj [(''authenticated'', JBool False)])
      | Inr d \<Rightarrow> Inr d)"

subsection \<open>fetchAndAnalyzeMeeting\<close>

text \<open>
  The result object. A field that is absent and a field that holds \<open>undefined\<close> are both
  \<open>None\<close>. The field \<open>error\<close> is declared a string, but the first phase stores
  \<open>data.message || '...'\<close> there unconverted, so it holds a JSON value.
\<close>

record MeetingProcessResult =
  success :: bool
  data :: "json option"
  analyzeResponse :: "json option"
  error :: "json option"

definition transcriptRequest :: "string \<Rightarrow> request" where
  "transcriptRequest meetingUrl =
     \<lparr>req_url = API_BASE_URL @ ''/transcript/fetch'',
      req_method = ''POST'',
      req_credentials = ''include'',
      req_headers = [(''Content-Type'', ''application/json'')],
      req_body = Some (JObj [(''joinUrl'', JStr meetingUrl)])\<rparr>"

definition analyzeRequest :: "string \<Rightarrow> json option \<Rightarrow> request" where
  "analyzeRequest apiUrl payload =
     \<lparr>req_url = apiUrl,
      req_method = ''POST'',
      req_credentials = ''omit'',
      req_headers =
        [(''accept'', ''application/json''),
         (''accept-language'',
          ''en-IN,en-US;q=0.9,en-GB;q=0.8,en;q=0.7,ta;q=0.6,kn;q=0.5''),
         (''content-type'', ''application/json'')],
      req_body = payload\<rparr>"

text \<open>
  The variables of the candidate loop, and the requests issued so far, oldest first.
\<close>

record loop_state =
  st_analyzeResponse :: "response option"
  st_analyzeData :: "json option"
  st_lastError :: "thrown option"
  st_calls :: "request list"

text \<open>\<open>analyzeError instanceof Error ? analyzeError : new Error('Unknown error')\<close>\<close>

fun asError :: "thrown \<Rightarrow> thrown" where
  "asError (ErrorObject m) = ErrorObject m"
| "asError OtherValue = ErrorObject ''Unknown error''"

text \<open>
  The loop over the candidate URLs. \<open>analyzeResponse\<close> is assigned as soon as \<open>fetch\<close>
  resolves; \<open>analyzeData\<close> is assigned, and the loop left, only when the body has been parsed.
  Any exception of the \<open>try\<close> block, from \<open>fetch\<close> or from \<open>json()\<close>, is recorded in
  \<open>lastError\<close> and the next URL is tried.
\<close>

fun analyze_loop :: "env \<Rightarrow> json option \<Rightarrow> string list \<Rightarrow> loop_state \<Rightarrow> loop_state" where
  "analyze_loop e payload [] st = st"
| "analyze_loop e payload (apiUrl # rest) st =
     (let rq = analyzeRequest apiUrl payload;
          st1 = st\<lparr>st_calls := st_calls st @ [rq]\<rparr>
      in case fetch e rq of
           Inl err \<Rightarrow> analyze_loop e payload rest (st1\<lparr>st_lastError := Some (asError err)\<rparr>)
         | Inr r \<Rightarrow>
             (let st2 = st1\<lparr>st_analyzeResponse := Some r\<rparr>
              in case resp_json r of
                   Inl err \<Rightarrow>
                     analyze_loop e payload rest (st2\<lparr>st_lastError := Some (asError err)\<rparr>)
                 | Inr j \<Rightarrow> st2\<lparr>st_analyzeData := Some j\<rparr>))"

text \<open>
  The log of the transcript on the success path computes template literals and calls
  \<open>forEach\<close>, both of which can raise a \<open>TypeError\<close> that leaves the \<open>try\<close> block.
  \<open>logEntry\<close> is the line printed for one entry, \<open>None\<close> when a substitution raises.
\<close>

definition logEntry :: "nat \<Rightarrow> json \<Rightarrow> string option" where
  "logEntry entryIndex entry = do {
     startTime \<leftarrow> orDefault (chain (Some entry) ''startTime'') ''00:00'';
     endTime \<leftarrow> orDefault (chain (Some entry) ''endTime'') ''00:00'';
     speaker \<leftarrow> (case chain (Some entry) ''speaker'' of
                  None \<Rightarrow> Some []
                | Some v \<Rightarrow> (if truthy (Some v)
                             then map_option (\<lambda>s. s @ '': '') (toString v) else Some []));
     content \<leftarrow> orDefault (chain (Some entry) ''text'') ''No content'';
     Some (decimal (entryIndex + 1) @ ''. ['' @ startTime @ '' - '' @ endTime @ ''] ''
           @ speaker @ content)
   }"

fun logEntries :: "nat \<Rightarrow> json list \<Rightarrow> type_error option" where
  "logEntries entryIndex [] = None"
| "logEntries entryIndex (entry # rest) =
     (case logEntry entryIndex entry of
        None \<Rightarrow> Some NoPrimitive
      | Some line \<Rightarrow> logEntries (entryIndex + 1) rest)"

text \<open>
  One section: the line \<open>Created: ...\<close>, then \<open>transcript?.entries?.forEach(...)\<close>. Of an
  array, \<open>entries\<close> is the built-in method \<open>Array.prototype.entries\<close>, a function
  without \<open>forEach\<close>; of an object it is the own property, and only an array can be
  iterated; \<open>null\<close> and \<open>undefined\<close> end the chain.
\<close>

definition logSection :: "json \<Rightarrow> type_error option" where
  "logSection transcript =
     (case orDefault (chain (Some transcript) ''createdDateTime'') ''Unknown'' of
        None \<Rightarrow> Some NoPrimitive
      | Some created \<Rightarrow>
          (case transcript of
             JArr xs \<Rightarrow> Some NotAFunction
           | JObj kv \<Rightarrow>
               (case map_of kv ''entries'' of
                  None \<Rightarrow> None
                | Some JNull \<Rightarrow> None
                | Some (JArr entries) \<Rightarrow> logEntries 0 entries
                | Some other \<Rightarrow> Some NotAFunction)
           | other \<Rightarrow> None))"

fun logSections :: "json list \<Rightarrow> type_error option" where
  "logSections [] = None"
| "logSections (transcript # rest) =
     (case logSection transcript of
        Some t \<Rightarrow> Some t
      | None \<Rightarrow> logSections rest)"

text \<open>
  \<open>gtZero e v\<close> is the comparison \<open>v > 0\<close> for a property value \<open>v\<close>; \<open>None\<close> when the
  conversion to a primitive raises.
\<close>

fun gtZero :: "env \<Rightarrow> json option \<Rightarrow> bool option" where
  "gtZero e None = Some False"
| "gtZero e (Some JNull) = Some False"
| "gtZero e (Some (JBool b)) = Some b"
| "gtZero e (Some (JNum r)) = Some (r \<noteq> ''0'' \<and> take 1 r \<noteq> ''-'')"
| "gtZero e (Some (JStr s)) = Some (stringToNumberPositive e s)"
| "gtZero e (Some (JArr xs)) = map_option (stringToNumberPositive e) (joinElems xs)"
| "gtZero e (Some (JObj kv)) = (if map_of kv ''toString'' \<noteq> None then None else Some False)"

text \<open>
  \<open>if (data.data?.transcripts?.length > 0) data.data.transcripts.forEach(...)\<close>: the
  length of an array or a string is its number of elements, that of an object its own
  property \<open>length\<close>; only an array has \<open>forEach\<close>.
\<close>

definition logTranscript :: "env \<Rightarrow> json option \<Rightarrow> type_error option" where
  "logTranscript e dd =
     (case chain dd ''transcripts'' of
        None \<Rightarrow> None
      | Some JNull \<Rightarrow> None
      | Some (JArr transcripts) \<Rightarrow> logSections transcripts
      | Some (JStr s) \<Rightarrow> (if s \<noteq> [] then Some NotAFunction else None)
      | Some (JObj kv) \<Rightarrow>
          (case gtZero e (map_of kv ''length'') of
             None \<Rightarrow> Some NoPrimitive
           | Some True \<Rightarrow> Some NotAFunction
           | Some False \<Rightarrow> None)
      | Some other \<Rightarrow> None)"

text \<open>The statements after the loop.\<close>

definition lastErrorMessage :: "thrown option \<Rightarrow> string" where
  "lastErrorMessage lastError =
     (case lastError of
        Some (ErrorObject m) \<Rightarrow> (if m \<noteq> [] then m else ''Unknown network error'')
      | other \<Rightarrow> ''Unknown network error'')"

definition afterLoop :: "env \<Rightarrow> json option \<Rightarrow> loop_state \<Rightarrow> thrown + MeetingProcessResult" where
  "afterLoop e dd st =
     (case st_analyzeResponse st of
        None \<Rightarrow>
          Inr \<lparr>success = True, data = dd, analyzeResponse = None,
               error = Some (JStr
                 (''Analysis failed - could not connect to any analyze API endpoints. Last error: ''
                  @ lastErrorMessage (st_lastError st)
                  @ ''. Transcript was fetched successfully.''))\<rparr>
      | Some r \<Rightarrow>
          (if ok r then
             (case logTranscript e dd of
                Some t \<Rightarrow> Inl (typeError e t)
              | None \<Rightarrow>
                  Inr \<lparr>success = True, data = dd, analyzeResponse = st_analyzeData st,
                       error = None\<rparr>)
           else
             (case orDefault (chain (st_analyzeData st) ''message'') ''Unknown error'' of
                None \<Rightarrow> Inl (typeError e NoPrimitive)
              | Some m \<Rightarrow>
                  Inr \<lparr>success = True, data = dd, analyzeResponse = st_analyzeData st,
                       error = Some (JStr
                         (''Analysis failed: '' @ m
                          @ '', but transcript was fetched successfully''))\<rparr>)))"

text \<open>The loop variables as declared before the loop, after the request of phase 1.\<close>

definition initialState :: "request \<Rightarrow> loop_state" where
  "initialState rq =
     \<lparr>st_analyzeResponse = None, st_analyzeData = None, st_lastError = None,
      st_calls = [rq]\<rparr>"

text \<open>
  The body of the outer \<open>try\<close> block, with the requests it issued. \<open>data.success\<close> on a
  body that is \<open>null\<close> raises a \<open>TypeError\<close>.
\<close>

definition fetchAndAnalyzeMeeting_try ::
    "env \<Rightarrow> string \<Rightarrow> string \<Rightarrow> (thrown + MeetingProcessResult) \<times> request list" where
  "fetchAndAnalyzeMeeting_try e meetingUrl meetingTitle =
     (let rq = transcriptRequest meetingUrl
      in case fetch e rq of
           Inl err \<Rightarrow> (Inl err, [rq])
         | Inr response \<Rightarrow>
             (case resp_json response of
                Inl err \<Rightarrow> (Inl err, [rq])
              | Inr d \<Rightarrow>
                  (if d = JNull then (Inl (typeError e NullProperty), [rq])
                   else if \<not> truthy (getProp d ''success'') then
                     (Inr \<lparr>success = False, data = None, analyzeResponse = None,
                           error = Some (orElse (getProp d ''message'')
                                           (JStr ''Failed to fetch transcript''))\<rparr>,
                      [rq])
                   else
                     (let st = analyze_loop e (getProp d ''data'') (getAnalyzeApiUrls e)
                                 (initialState rq)
                      in (afterLoop e (getProp d ''data'') st, st_calls st)))))"

text \<open>
  The public function: the outer \<open>catch\<close> turns every exception into a failure result.
\<close>

fun errorMessage :: "thrown \<Rightarrow> string" where
  "errorMessage (ErrorObject m) = m"
| "errorMessage OtherValue = ''An error occurred during the process''"

definition fetchAndAnalyzeMeeting ::
    "env \<Rightarrow> string \<Rightarrow> string \<Rightarrow> (thrown + MeetingProcessResult) \<times> request list" where
  "fetchAndAnalyzeMeeting e meetingUrl meetingTitle =
     (case fetchAndAnalyzeMeeting_try e meetingUrl meetingTitle of
        (Inl err, calls) \<Rightarrow>
          (Inr \<lparr>success = False, data = None, analyzeResponse = None,
                error = Some (JStr (errorMessage err))\<rparr>,
           calls)
      | (Inr result, calls) \<Rightarrow> (Inr result, calls))"

section \<open>The transcript export of the application component\<close>

text \<open>
  The component keeps the transcript in a state variable of the declared type
  \<open>TranscriptData | null\<close>. The model follows the declaration; every field and element
  that \<open>downloadTranscript\<close> guards with \<open>?.\<close> or \<open>||\<close> is optional.
\<close>

record TranscriptEntry =
  startTime :: "string option"
  endTime :: "string option"
  entryText :: "string option"
  speaker :: "string option"

record MeetingInfo =
  meetingId :: "string option"
  subject :: "string option"
  startDateTime :: "string option"
  endDateTime :: "string option"
  attendees :: "(string \<times> string) list option"

record TranscriptSection =
  transcriptId :: "string option"
  createdDateTime :: "string option"
  entries :: "TranscriptEntry option list option"

record TranscriptData =
  meetingInfo :: "MeetingInfo option"
  transcripts :: "TranscriptSection option list option"

text \<open>\<open>strOr v d\<close> is \<open>v || d\<close> on strings: the empty string is falsy.\<close>

fun strOr :: "string option \<Rightarrow> string \<Rightarrow> string" where
  "strOr None d = d"
| "strOr (Some s) d = (if s = [] then d else s)"

text \<open>\<open>Array.prototype.join\<close> on strings.\<close>

fun joinWith :: "string \<Rightarrow> string list \<Rightarrow> string" where
  "joinWith sep [] = []"
| "joinWith sep [x] = x"
| "joinWith sep (x # y # ys) = x @ sep @ joinWith sep (y # ys)"

definition nl :: string where
  "nl = [CHR 0x0A]"

definition divider :: string where
  "divider = nl @ nl @ ''---'' @ nl @ nl"

definition formatEntry :: "TranscriptEntry option \<Rightarrow> string" where
  "formatEntry entry =
     ''['' @ strOr (Option.bind entry startTime) ''00:00'' @ '' - ''
     @ strOr (Option.bind entry endTime) ''00:00'' @ ''] ''
     @ (case Option.bind entry speaker of
          None \<Rightarrow> []
        | Some s \<Rightarrow> (if s = [] then [] else s @ '': ''))
     @ strOr (Option.bind entry entryText) ''No content''"

text \<open>
  \<open>formatTime\<close> renders a date with \<open>toLocaleString\<close>, which depends on the locale of the
  browser; it is a parameter of the export.
\<close>

definition sectionHeader ::
    "(string \<Rightarrow> string) \<Rightarrow> TranscriptData \<Rightarrow> nat \<Rightarrow> TranscriptSection option \<Rightarrow> string" where
  "sectionHeader formatTime transcriptData index transcript =
     ''Meeting: '' @ strOr (Option.bind (meetingInfo transcriptData) subject) ''Untitled Meeting''
     @ nl @ ''Date: ''
     @ (case Option.bind (meetingInfo transcriptData) startDateTime of
          None \<Rightarrow> ''Unknown''
        | Some s \<Rightarrow> (if s = [] then ''Unknown'' else formatTime s))
     @ nl @ ''Transcript ID: ''
     @ strOr (Option.bind transcript transcriptId) (''transcript-'' @ decimal (index + 1))
     @ nl @ nl"

definition sectionEntries :: "TranscriptSection option \<Rightarrow> string" where
  "sectionEntries transcript =
     (case Option.bind transcript entries of
        None \<Rightarrow> ''No transcript entries available''
      | Some es \<Rightarrow>
          (let joined = joinWith nl (map formatEntry es)
           in if joined = [] then ''No transcript entries available'' else joined))"

definition exportContent :: "(string \<Rightarrow> string) \<Rightarrow> TranscriptData \<Rightarrow> string" where
  "exportContent formatTime transcriptData =
     (case transcripts transcriptData of
        None \<Rightarrow> ''No transcript data available''
      | Some ts \<Rightarrow>
          (let joined = joinWith divider
                 (map (\<lambda>(index, transcript).
                         sectionHeader formatTime transcriptData index transcript
                         @ sectionEntries transcript)
                    (enumerate 0 ts))
           in if joined = [] then ''No transcript data available'' else joined))"

text \<open>
  The download: nothing when there is no transcript, else the text of the blob and the
  file name given to the link.
\<close>

definition downloadTranscript ::
    "(string \<Rightarrow> string) \<Rightarrow> TranscriptData option \<Rightarrow> (string \<times> string) option" where
  "downloadTranscript formatTime state =
     (case state of
        None \<Rightarrow> None
      | Some transcriptData \<Rightarrow>
          Some (exportContent formatTime transcriptData,
                ''transcript-''
                @ strOr (Option.bind (meetingInfo transcriptData) meetingId) ''meeting''
                @ ''.txt''))"

section \<open>Notions used by the statements\<close>

text \<open>
  A candidate answers when its request resolves and the body of the response parses; this
  is the candidate at which the loop stops.
\<close>

definition answers :: "env \<Rightarrow> json option \<Rightarrow> string \<Rightarrow> bool" where
  "answers e payload apiUrl =
     (case fetch e (analyzeRequest apiUrl payload) of
        Inl err \<Rightarrow> False
      | Inr r \<Rightarrow> (case resp_json r of Inl err \<Rightarrow> False | Inr j \<Rightarrow> True))"

text \<open>
  The shape the interface \<open>TranscriptData\<close> declares, as far as the log of the success path
  looks: \<open>transcripts\<close> absent or an array of objects, whose \<open>entries\<close> are absent or an
  array of objects, with strings in the fields that are printed.
\<close>

definition stringField :: "json option \<Rightarrow> bool" where
  "stringField v = (case v of None \<Rightarrow> True | Some (JStr s) \<Rightarrow> True | Some other \<Rightarrow> False)"

definition entryShaped :: "json \<Rightarrow> bool" where
  "entryShaped entry =
     (case entry of
        JObj kv \<Rightarrow> stringField (map_of kv ''startTime'') \<and> stringField (map_of kv ''endTime'')
                   \<and> stringField (map_of kv ''speaker'') \<and> stringField (map_of kv ''text'')
      | other \<Rightarrow> False)"

definition sectionShaped :: "json \<Rightarrow> bool" where
  "sectionShaped transcript =
     (case transcript of
        JObj kv \<Rightarrow>
          stringField (map_of kv ''createdDateTime'')
          \<and> (case map_of kv ''entries'' of
                None \<Rightarrow> True
              | Some (JArr es) \<Rightarrow> list_all entryShaped es
              | Some other \<Rightarrow> False)
      | other \<Rightarrow> False)"

definition transcriptShaped :: "json option \<Rightarrow> bool" where
  "transcriptShaped dd =
     (case chain dd ''transcripts'' of
        None \<Rightarrow> True
      | Some (JArr ts) \<Rightarrow> list_all sectionShaped ts
      | Some other \<Rightarrow> False)"

text \<open>
  The repository has no reader of the exported text. The reading back that the
  specification's round trip speaks of is defined here from its words: the text is cut
  into lines, and the lines into blocks at every divider, a line \<open>---\<close> between two empty
  lines.
\<close>

fun splitLines :: "string \<Rightarrow> string list" where
  "splitLines [] = [[]]"
| "splitLines (c # cs) =
     (if c = CHR 0x0A then [] # splitLines cs
      else (case splitLines cs of [] \<Rightarrow> [[c]] | l # ls \<Rightarrow> (c # l) # ls))"

fun splitBlocks :: "string list \<Rightarrow> string list list" where
  "splitBlocks [] = [[]]"
| "splitBlocks (l # ls) =
     (if l = [] \<and> take 2 ls = [''---'', []] then [] # splitBlocks (drop 2 ls)
      else (case splitBlocks ls of [] \<Rightarrow> [[l]] | b # bs \<Rightarrow> (l # b) # bs))"

definition readBack :: "string \<Rightarrow> string list list" where
  "readBack content = splitBlocks (splitLines content)"

text \<open>The lines a section is expected to give: three header lines, an empty line, and
  one line for each entry, or the placeholder when the section has no entry.\<close>

definition dateText :: "(string \<Rightarrow> string) \<Rightarrow> TranscriptData \<Rightarrow> string" where
  "dateText formatTime transcriptData =
     (case Option.bind (meetingInfo transcriptData) startDateTime of
        None \<Rightarrow> ''Unknown''
      | Some s \<Rightarrow> (if s = [] then ''Unknown'' else formatTime s))"

definition headerLines ::
    "(string \<Rightarrow> string) \<Rightarrow> TranscriptData \<Rightarrow> nat \<Rightarrow> TranscriptSection option \<Rightarrow> string list" where
  "headerLines formatTime transcriptData index transcript =
     [''Meeting: '' @ strOr (Option.bind (meetingInfo transcriptData) subject) ''Untitled Meeting'',
      ''Date: '' @ dateText formatTime transcriptData,
      ''Transcript ID: ''
        @ strOr (Option.bind transcript transcriptId) (''transcript-'' @ decimal (index + 1)),
      []]"

definition entriesOf :: "TranscriptSection option \<Rightarrow> TranscriptEntry option list" where
  "entriesOf transcript = (case Option.bind transcript entries of None \<Rightarrow> [] | Some es \<Rightarrow> es)"

definition entryLines :: "TranscriptSection option \<Rightarrow> string list" where
  "entryLines transcript =
     (if entriesOf transcript = [] then [''No transcript entries available'']
      else map formatEntry (entriesOf transcript))"

definition blockLines ::
    "(string \<Rightarrow> string) \<Rightarrow> TranscriptData \<Rightarrow> nat \<times> TranscriptSection option \<Rightarrow> string list" where
  "blockLines formatTime transcriptData p =
     headerLines formatTime transcriptData (fst p) (snd p) @ entryLines (snd p)"

fun interleave :: "string list list \<Rightarrow> string list" where
  "interleave [] = []"
| "interleave [b] = b"
| "interleave (b # c # bs) = b @ [[], ''---'', []] @ interleave (c # bs)"

text \<open>Texts without a line break.\<close>

definition plain :: "string \<Rightarrow> bool" where
  "plain s = (CHR 0x0A \<notin> set s)"

definition plainOpt :: "string option \<Rightarrow> bool" where
  "plainOpt v = (case v of None \<Rightarrow> True | Some s \<Rightarrow> plain s)"

definition plainEntry :: "TranscriptEntry option \<Rightarrow> bool" where
  "plainEntry entry =
     (case entry of
        None \<Rightarrow> True
      | Some en \<Rightarrow> plainOpt (startTime en) \<and> plainOpt (endTime en)
                   \<and> plainOpt (speaker en) \<and> plainOpt (entryText en))"

definition plainSection :: "TranscriptSection option \<Rightarrow> bool" where
  "plainSection transcript =
     (plainOpt (Option.bind transcript transcriptId)
      \<and> list_all plainEntry (entriesOf transcript))"

definition plainHeader :: "(string \<Rightarrow> string) \<Rightarrow> TranscriptData \<Rightarrow> bool" where
  "plainHeader formatTime transcriptData =
     (plainOpt (Option.bind (meetingInfo transcriptData) subject)
      \<and> plain (dateText formatTime transcriptData))"

section \<open>Example environments and transcripts\<close>

text \<open>
  An environment given by a script: the outcome of \<open>fetch\<close> for each URL listed, and a
  connection failure for every other URL. The page has no query string and the clock
  reads 0. The number conversion is right on strings of decimal digits; no example
  consults it.
\<close>

fun engineMessages :: "type_error \<Rightarrow> string" where
  "engineMessages NullProperty = ''Cannot read properties of null''"
| "engineMessages NotAFunction = ''forEach is not a function''"
| "engineMessages NoPrimitive = ''Cannot convert object to primitive value''"

definition digitsPositive :: "string \<Rightarrow> bool" where
  "digitsPositive s =
     (s \<noteq> [] \<and> list_all (\<lambda>c. c \<in> set ''0123456789'') s \<and> \<not> list_all (\<lambda>c. c = CHR ''0'') s)"

definition scripted :: "(string \<times> (thrown + response)) list \<Rightarrow> env" where
  "scripted script =
     \<lparr>searchParams = [],
      fetch = (\<lambda>rq. case map_of script (req_url rq) of
                       Some outcome \<Rightarrow> outcome
                     | None \<Rightarrow> Inl (ErrorObject ''Failed to fetch'')),
      now = 0,
      typeErrorMessage = engineMessages,
      stringToNumberPositive = digitsPositive\<rparr>"

definition fetchUrl :: string where
  "fetchUrl = ''https://mom-bot-transcript-service.onrender.com/transcript/fetch''"

definition authUrl :: string where
  "authUrl = ''https://mom-bot-transcript-service.onrender.com/auth/status?t=0''"

definition candidate1 :: string where
  "candidate1 =
     ''http://localhost:8000/api/v1/analyze?test_mode=true&llm_timeout=60&user_lookup_timeout=30''"

definition candidate2 :: string where
  "candidate2 =
     ''http://127.0.0.1:8000/api/v1/analyze?test_mode=true&llm_timeout=60&user_lookup_timeout=30''"

definition candidate3 :: string where
  "candidate3 =
     ''http://0.0.0.0:8000/api/v1/analyze?test_mode=true&llm_timeout=60&user_lookup_timeout=30''"

definition sampleTranscript :: json where
  "sampleTranscript =
     JObj [(''meetingInfo'', JObj [(''id'', JStr ''m1''), (''subject'', JStr ''Standup'')]),
           (''transcripts'',
            JArr [JObj [(''id'', JStr ''t1''),
                        (''entries'',
                         JArr [JObj [(''startTime'', JStr ''00:01''),
                                     (''endTime'', JStr ''00:02''),
                                     (''speaker'', JStr ''Ann''),
                                     (''text'', JStr ''Hello'')]])]])]"

definition fetched :: "json \<Rightarrow> thrown + response" where
  "fetched d =
     Inr \<lparr>resp_status = 200,
          resp_json = Inr (JObj [(''success'', JBool True), (''data'', d)])\<rparr>"

definition replied :: "nat \<Rightarrow> json \<Rightarrow> thrown + response" where
  "replied status body = Inr \<lparr>resp_status = status, resp_json = Inr body\<rparr>"

definition unparseable :: "nat \<Rightarrow> thrown + response" where
  "unparseable status =
     Inr \<lparr>resp_status = status, resp_json = Inl (ErrorObject ''Unexpected token < in JSON'')\<rparr>"

text \<open>A response whose headers arrive and whose connection is lost while the body is read.\<close>

definition bodyLost :: "nat \<Rightarrow> thrown + response" where
  "bodyLost status =
     Inr \<lparr>resp_status = status, resp_json = Inl (ErrorObject ''network error'')\<rparr>"

definition envOffline :: env where
  "envOffline = scripted []"

definition envHtmlBody :: env where
  "envHtmlBody = scripted [(fetchUrl, unparseable 502), (authUrl, unparseable 502)]"

definition envNoTranscript :: env where
  "envNoTranscript =
     scripted [(fetchUrl,
                replied 200 (JObj [(''success'', JBool False),
                                   (''message'', JStr ''Transcript not found'')]))]"

definition envUnreachable :: env where
  "envUnreachable = scripted [(fetchUrl, fetched sampleTranscript)]"

definition env500text :: env where
  "env500text =
     scripted [(fetchUrl, fetched sampleTranscript),
               (candidate1, unparseable 500),
               (candidate2, replied 200 (JObj []))]"

definition env500json :: env where
  "env500json =
     scripted [(fetchUrl, fetched sampleTranscript),
               (candidate1, replied 500 (JObj [(''message'', JStr ''boom'')])),
               (candidate2, replied 200 (JObj []))]"

definition envSecond404 :: env where
  "envSecond404 =
     scripted [(fetchUrl, fetched sampleTranscript),
               (candidate2, replied 404 (JObj [(''detail'', JStr ''Not Found'')]))]"

definition envSecond200 :: env where
  "envSecond200 =
     scripted [(fetchUrl, fetched sampleTranscript),
               (candidate2, replied 200 (JObj [(''data'', JObj [(''mode'', JStr ''test'')])]))]"

definition envOddMessage :: env where
  "envOddMessage =
     scripted [(fetchUrl, fetched sampleTranscript),
               (candidate1,
                replied 500 (JObj [(''message'', JObj [(''toString'', JNum ''1'')])]))]"

definition envEmptyMessage :: env where
  "envEmptyMessage =
     scripted [(fetchUrl,
                replied 200 (JObj [(''success'', JBool False), (''message'', JStr [])]))]"

definition envBodiesLost :: env where
  "envBodiesLost =
     scripted [(fetchUrl, fetched sampleTranscript),
               (candidate1, bodyLost 200),
               (candidate2, bodyLost 200),
               (candidate3, bodyLost 200)]"

definition envSecondUnparseable :: env where
  "envSecondUnparseable =
     scripted [(fetchUrl, fetched sampleTranscript),
               (candidate2, unparseable 200),
               (candidate3, replied 500 (JObj [(''message'', JStr ''boom'')]))]"

definition envAuth401 :: env where
  "envAuth401 = scripted [(authUrl, replied 401 (JObj [(''error'', JStr ''unauthorized'')]))]"

definition envAuthNull :: env where
  "envAuthNull = scripted [(authUrl, replied 200 JNull)]"

definition envProduction :: env where
  "envProduction = (scripted [])\<lparr>searchParams := [(''test_mode'', ''false'')]\<rparr>"

definition helloEntry :: TranscriptEntry where
  "helloEntry =
     \<lparr>startTime = Some ''00:01'', endTime = Some ''00:02'', entryText = Some ''Hello'',
      speaker = Some ''Ann''\<rparr>"

definition bareEntry :: TranscriptEntry where
  "bareEntry = \<lparr>startTime = None, endTime = None, entryText = Some ''Hi'', speaker = None\<rparr>"

definition sampleExport :: TranscriptData where
  "sampleExport =
     \<lparr>meetingInfo = Some \<lparr>meetingId = Some ''m1'', subject = Some ''Standup'',
                           startDateTime = None, endDateTime = None, attendees = None\<rparr>,
      transcripts =
        Some [Some \<lparr>transcriptId = Some ''t1'', createdDateTime = None,
                    entries = Some [Some helloEntry, Some bareEntry]\<rparr>,
              Some \<lparr>transcriptId = None, createdDateTime = None,
                    entries = Some [Some bareEntry, Some helloEntry]\<rparr>]\<rparr>"

definition dividerEntry :: TranscriptEntry where
  "dividerEntry =
     \<lparr>startTime = None, endTime = None,
      entryText = Some (''a'' @ [CHR 0x0A, CHR 0x0A] @ ''---'' @ [CHR 0x0A, CHR 0x0A] @ ''b''),
      speaker = None\<rparr>"

definition dividerExport :: TranscriptData where
  "dividerExport =
     \<lparr>meetingInfo = None,
      transcripts = Some [Some \<lparr>transcriptId = None, createdDateTime = None,
                                entries = Some [Some dividerEntry]\<rparr>]\<rparr>"

definition emptyExport :: TranscriptData where
  "emptyExport = \<lparr>meetingInfo = None, transcripts = Some []\<rparr>"

section \<open>Facts about the candidate loop\<close>

lemma truthy_getProp_not_null: "truthy (getProp d n) \<Longrightarrow> d \<noteq> JNull"
  by auto

lemma loop_skip:
  "\<not> answers e p v \<Longrightarrow>
   \<exists>st'. analyze_loop e p (v # rest) st = analyze_loop e p rest st'
       \<and> st_calls st' = st_calls st @ [analyzeRequest v p]"
  by (auto simp: answers_def Let_def split: sum.splits)

lemma loop_stop_here:
  assumes "fetch e (analyzeRequest u p) = Inr r" and "resp_json r = Inr j"
  shows "analyze_loop e p (u # post) st =
           st\<lparr>st_calls := st_calls st @ [analyzeRequest u p],
              st_analyzeResponse := Some r, st_analyzeData := Some j\<rparr>"
  using assms by (simp add: Let_def)

lemma loop_stop:
  assumes "\<forall>v\<in>set pre. \<not> answers e p v"
    and "fetch e (analyzeRequest u p) = Inr r" and "resp_json r = Inr j"
  shows "st_calls (analyze_loop e p (pre @ u # post) st)
           = st_calls st @ map (\<lambda>v. analyzeRequest v p) (pre @ [u])
         \<and> st_analyzeResponse (analyze_loop e p (pre @ u # post) st) = Some r
         \<and> st_analyzeData (analyze_loop e p (pre @ u # post) st) = Some j"
  using assms(1)
proof (induction pre arbitrary: st)
  case Nil
  show ?case using loop_stop_here [OF assms(2,3)] by simp
next
  case (Cons v pre)
  from Cons.prems have nv: "\<not> answers e p v" and rest: "\<forall>w\<in>set pre. \<not> answers e p w"
    by simp_all
  from loop_skip [OF nv, of "pre @ u # post" st] obtain st' where
    eq: "analyze_loop e p (v # pre @ u # post) st = analyze_loop e p (pre @ u # post) st'"
    and calls: "st_calls st' = st_calls st @ [analyzeRequest v p]"
    by blast
  show ?case using Cons.IH [OF rest, of st'] eq calls by simp
qed

lemma loop_all_throw:
  assumes "\<forall>v\<in>set urls. \<exists>err. fetch e (analyzeRequest v p) = Inl err"
  shows "st_calls (analyze_loop e p urls st) = st_calls st @ map (\<lambda>v. analyzeRequest v p) urls
         \<and> st_analyzeResponse (analyze_loop e p urls st) = st_analyzeResponse st
         \<and> st_analyzeData (analyze_loop e p urls st) = st_analyzeData st"
  using assms
proof (induction urls arbitrary: st)
  case Nil
  show ?case by simp
next
  case (Cons v urls)
  from Cons.prems obtain err where f: "fetch e (analyzeRequest v p) = Inl err" by auto
  from Cons.prems have rest: "\<forall>w\<in>set urls. \<exists>err. fetch e (analyzeRequest w p) = Inl err"
    by simp
  show ?case using Cons.IH [OF rest] f by (simp add: Let_def)
qed

lemma try_phase2:
  assumes "fetch e (transcriptRequest url) = Inr r0" and "resp_json r0 = Inr d"
    and "truthy (getProp d ''success'')"
  shows "fetchAndAnalyzeMeeting_try e url title =
           (afterLoop e (getProp d ''data'')
              (analyze_loop e (getProp d ''data'') (getAnalyzeApiUrls e)
                 (initialState (transcriptRequest url))),
            st_calls (analyze_loop e (getProp d ''data'') (getAnalyzeApiUrls e)
                 (initialState (transcriptRequest url))))"
  using assms truthy_getProp_not_null [OF assms(3)]
  by (simp add: fetchAndAnalyzeMeeting_try_def Let_def)

lemma lastErrorMessage_nonempty: "lastErrorMessage x \<noteq> []"
  by (auto simp: lastErrorMessage_def split: option.splits thrown.splits)

lemma loop_stopped:
  assumes "urls = pre @ u # post"
    and "\<forall>v\<in>set pre. \<not> answers e p v"
    and "fetch e (analyzeRequest u p) = Inr r" and "resp_json r = Inr j"
  shows "st_analyzeResponse (analyze_loop e p urls (initialState rq)) = Some r"
    and "st_analyzeData (analyze_loop e p urls (initialState rq)) = Some j"
    and "st_calls (analyze_loop e p urls (initialState rq))
           = rq # map (\<lambda>v. analyzeRequest v p) (pre @ [u])"
  using loop_stop [OF assms(2,3,4), of post "initialState rq"] assms(1)
  by (simp_all add: initialState_def)

section \<open>Facts about the log of the transcript\<close>

lemma orDefault_stringField: "stringField v \<Longrightarrow> orDefault v d \<noteq> None"
  by (auto simp: stringField_def orDefault_def split: option.splits json.splits)

lemma logEntry_shaped: "entryShaped entry \<Longrightarrow> logEntry i entry \<noteq> None"
proof -
  assume "entryShaped entry"
  then obtain kv where kv: "entry = JObj kv"
    and f: "stringField (map_of kv ''startTime'')" "stringField (map_of kv ''endTime'')"
      "stringField (map_of kv ''speaker'')" "stringField (map_of kv ''text'')"
    by (auto simp: entryShaped_def split: json.splits)
  from f(1) obtain a where a: "orDefault (map_of kv ''startTime'') ''00:00'' = Some a"
    using orDefault_stringField by fastforce
  from f(2) obtain b where b: "orDefault (map_of kv ''endTime'') ''00:00'' = Some b"
    using orDefault_stringField by fastforce
  from f(4) obtain c where c: "orDefault (map_of kv ''text'') ''No content'' = Some c"
    using orDefault_stringField by fastforce
  show ?thesis
    using a b c f(3)
    by (auto simp: kv logEntry_def stringField_def split: option.splits json.splits)
qed

lemma logEntries_shaped: "list_all entryShaped es \<Longrightarrow> logEntries i es = None"
proof (induction es arbitrary: i)
  case Nil
  show ?case by simp
next
  case (Cons entry es)
  then obtain line where "logEntry i entry = Some line"
    using logEntry_shaped [of entry i] by auto
  with Cons show ?case by simp
qed

lemma logSection_shaped: "sectionShaped transcript \<Longrightarrow> logSection transcript = None"
proof -
  assume s: "sectionShaped transcript"
  then obtain kv where kv: "transcript = JObj kv"
    and c: "stringField (map_of kv ''createdDateTime'')"
    by (auto simp: sectionShaped_def split: json.splits)
  from c obtain created where
    cr: "orDefault (map_of kv ''createdDateTime'') ''Unknown'' = Some created"
    using orDefault_stringField by fastforce
  show ?thesis
    using s cr
    by (auto simp: kv logSection_def sectionShaped_def logEntries_shaped
             split: option.splits json.splits)
qed

lemma logSections_shaped: "list_all sectionShaped ts \<Longrightarrow> logSections ts = None"
  by (induction ts) (simp_all add: logSection_shaped)

lemma logTranscript_shaped: "transcriptShaped dd \<Longrightarrow> logTranscript e dd = None"
  by (auto simp: transcriptShaped_def logTranscript_def logSections_shaped
           split: option.splits json.splits)

section \<open>Facts about the export\<close>

lemma decimal_0: "decimal 0 = ''0''"
  by (simp add: decimal.simps)

lemma decimal_1: "decimal (Suc 0) = ''1''"
  by (simp add: decimal.simps)

lemma decimal_2: "decimal (Suc (Suc 0)) = ''2''"
  by (simp add: decimal.simps)

lemma plain_append: "plain (a @ b) = (plain a \<and> plain b)"
  by (auto simp: plain_def)

lemma plain_strOr: "plainOpt v \<Longrightarrow> plain d \<Longrightarrow> plain (strOr v d)"
  by (cases v) (auto simp: plainOpt_def)

lemma digit_plain: "n < 10 \<Longrightarrow> ''0123456789'' ! n \<noteq> CHR 0x0A"
proof -
  assume "n < 10"
  then have "''0123456789'' ! n \<in> set ''0123456789''"
    by (intro nth_mem) simp
  then show ?thesis by auto
qed

lemma plain_decimal: "plain (decimal n)"
proof (induction n rule: decimal.induct)
  case (1 n)
  show ?case
  proof (cases "n < 10")
    case True
    then show ?thesis using digit_plain [of n] by (simp add: decimal.simps [of n] plain_def)
  next
    case False
    have "n mod 10 < 10" by simp
    then have "''0123456789'' ! (n mod 10) \<noteq> CHR 0x0A" by (rule digit_plain)
    then show ?thesis using 1 False by (simp add: decimal.simps [of n] plain_def)
  qed
qed

lemma plain_formatEntry: "plainEntry entry \<Longrightarrow> plain (formatEntry entry)"
  by (cases entry)
     (auto simp: plainEntry_def formatEntry_def plain_def plainOpt_def
           split: option.splits if_splits)

lemma formatEntry_bracket: "\<exists>rest. formatEntry entry = CHR ''['' # rest"
  by (simp add: formatEntry_def)

lemma joinWith_append:
  "xs \<noteq> [] \<Longrightarrow> ys \<noteq> [] \<Longrightarrow> joinWith sep (xs @ ys) = joinWith sep xs @ sep @ joinWith sep ys"
proof (induction sep xs rule: joinWith.induct)
  case (1 sep)
  then show ?case by simp
next
  case (2 sep x)
  then show ?case by (cases ys) simp_all
next
  case (3 sep x y ys')
  then show ?case by simp
qed

lemma joinWith_nonempty: "x \<noteq> [] \<Longrightarrow> joinWith sep (x # xs) \<noteq> []"
  by (cases xs) simp_all

lemma splitLines_plain: "plain l \<Longrightarrow> splitLines l = [l]"
  by (induction l) (auto simp: plain_def)

lemma splitLines_step: "plain l \<Longrightarrow> splitLines (l @ nl @ rest) = l # splitLines rest"
  by (induction l) (auto simp: plain_def nl_def)

lemma splitLines_join:
  "ls \<noteq> [] \<Longrightarrow> list_all plain ls \<Longrightarrow> splitLines (joinWith nl ls) = ls"
proof (induction nl ls rule: joinWith.induct)
  case 1
  then show ?case by simp
next
  case (2 x)
  then show ?case by (simp add: splitLines_plain)
next
  case (3 x y ys)
  then show ?case by (simp add: splitLines_step)
qed

lemma splitBlocks_single: "''---'' \<notin> set b \<Longrightarrow> splitBlocks b = [b]"
proof (induction b)
  case Nil
  show ?case by simp
next
  case (Cons l b)
  then have "take 2 b \<noteq> [''---'', []]" by (cases b) auto
  with Cons show ?case by simp
qed

lemma splitBlocks_step:
  "''---'' \<notin> set b \<Longrightarrow> splitBlocks (b @ [] # ''---'' # [] # rest) = b # splitBlocks rest"
proof (induction b)
  case Nil
  show ?case by simp
next
  case (Cons l b)
  then have "take 2 (b @ [] # ''---'' # [] # rest) \<noteq> [''---'', []]" by (cases b) auto
  with Cons show ?case by simp
qed

lemma splitBlocks_interleave:
  "bs \<noteq> [] \<Longrightarrow> \<forall>b\<in>set bs. ''---'' \<notin> set b \<Longrightarrow> splitBlocks (interleave bs) = bs"
proof (induction bs rule: interleave.induct)
  case 1
  then show ?case by simp
next
  case (2 b)
  then show ?case by (simp add: splitBlocks_single)
next
  case (3 b c bs)
  then show ?case by (simp add: splitBlocks_step)
qed

lemma interleave_nonempty: "b \<noteq> [] \<Longrightarrow> interleave (b # bs) \<noteq> []"
  by (cases bs) simp_all

lemma interleave_plain:
  "\<forall>b\<in>set bs. list_all plain b \<Longrightarrow> list_all plain (interleave bs)"
  by (induction bs rule: interleave.induct) (simp_all add: plain_def)

lemma join_interleave:
  "\<forall>b\<in>set bs. b \<noteq> [] \<Longrightarrow>
   joinWith divider (map (joinWith nl) bs) = joinWith nl (interleave bs)"
proof (induction bs rule: interleave.induct)
  case 1
  show ?case by simp
next
  case (2 b)
  show ?case by simp
next
  case (3 b c bs)
  then have b: "b \<noteq> []" and c: "c \<noteq> []" by simp_all
  have ne: "interleave (c # bs) \<noteq> []" using c by (rule interleave_nonempty)
  have "joinWith nl (b @ [[], ''---'', []] @ interleave (c # bs))
        = joinWith nl b @ nl @ joinWith nl ([[], ''---'', []] @ interleave (c # bs))"
    using b by (intro joinWith_append) simp_all
  also have "joinWith nl ([[], ''---'', []] @ interleave (c # bs))
        = joinWith nl [[], ''---'', []] @ nl @ joinWith nl (interleave (c # bs))"
    using ne by (intro joinWith_append) simp_all
  finally show ?case using 3 by (simp add: divider_def)
qed

lemma sectionEntries_lines: "sectionEntries transcript = joinWith nl (entryLines transcript)"
proof (cases "Option.bind transcript entries")
  case None
  then show ?thesis by (simp add: sectionEntries_def entryLines_def entriesOf_def)
next
  case (Some es)
  show ?thesis
  proof (cases es)
    case Nil
    with Some show ?thesis by (simp add: sectionEntries_def entryLines_def entriesOf_def)
  next
    case (Cons x xs)
    have "formatEntry x \<noteq> []" using formatEntry_bracket [of x] by auto
    then have "joinWith nl (formatEntry x # map formatEntry xs) \<noteq> []"
      by (rule joinWith_nonempty)
    with Some Cons show ?thesis
      by (simp add: sectionEntries_def entryLines_def entriesOf_def)
  qed
qed

lemma entryLines_nonempty: "entryLines transcript \<noteq> []"
  by (simp add: entryLines_def)

lemma section_text:
  "sectionHeader formatTime td i t @ sectionEntries t
   = joinWith nl (blockLines formatTime td (i, t))"
proof -
  have "joinWith nl (headerLines formatTime td i t @ entryLines t)
        = joinWith nl (headerLines formatTime td i t) @ nl @ joinWith nl (entryLines t)"
    using entryLines_nonempty by (intro joinWith_append) (simp_all add: headerLines_def)
  then show ?thesis
    by (simp add: sectionEntries_lines blockLines_def sectionHeader_def headerLines_def
        dateText_def)
qed

lemma entryLines_plain: "list_all plainEntry (entriesOf t) \<Longrightarrow> list_all plain (entryLines t)"
proof -
  assume a: "list_all plainEntry (entriesOf t)"
  have "list_all plainEntry es \<Longrightarrow> list_all plain (map formatEntry es)" for es
    by (induction es) (simp_all add: plain_formatEntry)
  with a show ?thesis by (simp add: entryLines_def plain_def)
qed

lemma blockLines_plain:
  assumes "plainHeader formatTime td" and "plainSection t"
  shows "list_all plain (blockLines formatTime td (i, t))"
proof -
  have "plain (''transcript-'' @ decimal (i + 1))"
    using plain_decimal by (simp add: plain_def)
  then have h3: "plain (strOr (Option.bind t transcriptId) (''transcript-'' @ decimal (i + 1)))"
    using assms(2) by (intro plain_strOr) (simp_all add: plainSection_def)
  have h1: "plain (strOr (Option.bind (meetingInfo td) subject) ''Untitled Meeting'')"
    using assms(1) by (intro plain_strOr) (simp_all add: plainHeader_def plain_def)
  have h2: "plain (dateText formatTime td)" using assms(1) by (simp add: plainHeader_def)
  have "list_all plain (entryLines t)"
    using assms(2) by (intro entryLines_plain) (simp add: plainSection_def)
  then show ?thesis
    using h1 h2 h3
    by (simp add: blockLines_def headerLines_def) (simp add: plain_def)
qed

lemma blockLines_no_divider: "''---'' \<notin> set (blockLines formatTime td p)"
proof -
  have "''---'' \<noteq> formatEntry entry" for entry
    by (simp add: formatEntry_def)
  then have "''---'' \<notin> set (map formatEntry es)" for es
    by (induction es) simp_all
  then show ?thesis by (simp add: blockLines_def headerLines_def entryLines_def)
qed

lemma blockLines_nonempty: "blockLines formatTime td p \<noteq> []"
  by (simp add: blockLines_def headerLines_def)

lemma exportContent_lines:
  assumes "transcripts td = Some ts" and "ts \<noteq> []"
  shows "exportContent formatTime td
         = joinWith nl (interleave (map (blockLines formatTime td) (enumerate 0 ts)))"
proof -
  let ?f = "\<lambda>(index, transcript). sectionHeader formatTime td index transcript
                                  @ sectionEntries transcript"
  let ?bs = "map (blockLines formatTime td) (enumerate 0 ts)"
  have "?f p = joinWith nl (blockLines formatTime td p)" for p
    using section_text [of formatTime td "fst p" "snd p"] by (simp add: split_beta)
  then have "map ?f (enumerate 0 ts)
      = map (\<lambda>p. joinWith nl (blockLines formatTime td p)) (enumerate 0 ts)"
    by (intro map_cong) auto
  then have m: "map ?f (enumerate 0 ts) = map (joinWith nl) ?bs"
    by (simp only: map_map comp_def)
  have ji: "joinWith divider (map (joinWith nl) ?bs) = joinWith nl (interleave ?bs)"
    by (rule join_interleave) (simp add: blockLines_nonempty)
  have eq: "joinWith divider (map ?f (enumerate 0 ts)) = joinWith nl (interleave ?bs)"
    by (simp only: m ji)
  obtain p ps where ps: "enumerate 0 ts = p # ps" using assms(2) by (cases ts) auto
  have "interleave ?bs \<noteq> []"
    unfolding ps using interleave_nonempty blockLines_nonempty by simp
  then obtain l ls where ls: "interleave ?bs = l # ls"
    by (cases "interleave ?bs") auto
  have "hd (blockLines formatTime td p) \<noteq> []"
    by (simp add: blockLines_def headerLines_def)
  moreover have "l = hd (blockLines formatTime td p)"
    using ls unfolding ps by (cases ps) (auto simp: blockLines_def headerLines_def)
  ultimately have "l \<noteq> []" by simp
  then have "joinWith nl (l # ls) \<noteq> []" by (rule joinWith_nonempty)
  then have "joinWith nl (interleave ?bs) \<noteq> []"
    unfolding ls .
  then show ?thesis using assms(1) eq by (simp add: exportContent_def Let_def)
qed

lemma readBack_export:
  assumes "transcripts td = Some ts" and "ts \<noteq> []"
    and "plainHeader formatTime td" and "list_all plainSection ts"
  shows "readBack (exportContent formatTime td)
         = map (blockLines formatTime td) (enumerate 0 ts)"
proof -
  let ?bs = "map (blockLines formatTime td) (enumerate 0 ts)"
  have "length ?bs = length ts" by simp
  then have ne: "?bs \<noteq> []" using assms(2) by (metis length_0_conv)
  have all: "\<forall>p\<in>set (enumerate 0 ts). plainSection (snd p)"
    using assms(4) by (auto simp: list_all_iff enumerate_eq_zip dest: set_zip_rightD)
  have pl: "list_all plain (interleave ?bs)"
    using all blockLines_plain [OF assms(3)] by (intro interleave_plain) auto
  have ine: "interleave ?bs \<noteq> []"
    using ne interleave_nonempty blockLines_nonempty by (cases "enumerate 0 ts") auto
  have "readBack (exportContent formatTime td) = splitBlocks (interleave ?bs)"
    using exportContent_lines [OF assms(1,2)] splitLines_join [OF ine pl]
    by (simp add: readBack_def)
  also have "\<dots> = ?bs"
    using ne blockLines_no_divider by (intro splitBlocks_interleave) auto
  finally show ?thesis .
qed

lemmas example_defs =
  scripted_def fetchUrl_def authUrl_def candidate1_def candidate2_def candidate3_def
  sampleTranscript_def fetched_def replied_def unparseable_def bodyLost_def
  transcriptRequest_def analyzeRequest_def authStatusRequest_def API_BASE_URL_def
  getAnalyzeApiUrls_def getTestModeFromUrl_def baseUrls_def decimal_0

lemma scripted_urls: "getAnalyzeApiUrls (scripted s) = [candidate1, candidate2, candidate3]"
  by (simp add: example_defs)

section \<open>The analyze phase of fetchAndAnalyzeMeeting\<close>

text \<open>
  C1. After a successful fetch the candidates are requested in their fixed order, and the
  loop stops at the first candidate whose request resolves and whose body parses as JSON:
  the requests issued are the transcript request followed by the requests to the
  candidates up to and including that one. A candidate whose request is rejected, or
  whose body does not parse, is passed over. A status outside 200-299 with a JSON body
  stops the loop: when the stopping candidate responds so (in particular the first one,
  with HTTP 500) and the message of its body converts to a string, no later candidate is
  requested and the result carries the body as \<open>analyzeResponse\<close> together with the error
  text.
\<close>

theorem analyze_loop_stops_at_first_answer:
  assumes "fetch e (transcriptRequest meetingUrl) = Inr r0" and "resp_json r0 = Inr d"
    and "truthy (getProp d ''success'')"
    and "getAnalyzeApiUrls e = pre @ u # post"
    and "\<forall>v\<in>set pre. \<not> answers e (getProp d ''data'') v"
    and "fetch e (analyzeRequest u (getProp d ''data'')) = Inr r" and "resp_json r = Inr j"
  shows "snd (fetchAndAnalyzeMeeting e meetingUrl meetingTitle) =
           transcriptRequest meetingUrl
             # map (\<lambda>v. analyzeRequest v (getProp d ''data'')) (pre @ [u])
         \<and> (\<not> ok r \<longrightarrow> orDefault (chain (Some j) ''message'') ''Unknown error'' = Some m \<longrightarrow>
              fst (fetchAndAnalyzeMeeting e meetingUrl meetingTitle) =
                Inr \<lparr>success = True, data = getProp d ''data'', analyzeResponse = Some j,
                     error = Some (JStr (''Analysis failed: '' @ m
                                         @ '', but transcript was fetched successfully''))\<rparr>)"
proof -
  let ?st = "analyze_loop e (getProp d ''data'') (getAnalyzeApiUrls e)
               (initialState (transcriptRequest meetingUrl))"
  note st = loop_stopped [OF assms(4,5,6,7), of "transcriptRequest meetingUrl"]
  note phase2 = try_phase2 [OF assms(1-3), of meetingTitle]
  have calls: "snd (fetchAndAnalyzeMeeting e meetingUrl meetingTitle) =
           transcriptRequest meetingUrl
             # map (\<lambda>v. analyzeRequest v (getProp d ''data'')) (pre @ [u])"
    using phase2 st(3) by (simp add: fetchAndAnalyzeMeeting_def split: sum.splits)
  have res: "fst (fetchAndAnalyzeMeeting e meetingUrl meetingTitle) =
                Inr \<lparr>success = True, data = getProp d ''data'', analyzeResponse = Some j,
                     error = Some (JStr (''Analysis failed: '' @ m
                                         @ '', but transcript was fetched successfully''))\<rparr>"
    if "\<not> ok r" and "orDefault (chain (Some j) ''message'') ''Unknown error'' = Some m"
  proof -
    have "afterLoop e (getProp d ''data'') ?st =
            Inr \<lparr>success = True, data = getProp d ''data'', analyzeResponse = Some j,
                 error = Some (JStr (''Analysis failed: '' @ m
                                     @ '', but transcript was fetched successfully''))\<rparr>"
      using st(1,2) that by (simp add: afterLoop_def)
    then show ?thesis using phase2 by (simp add: fetchAndAnalyzeMeeting_def)
  qed
  show ?thesis using calls res by blast
qed

theorem analyze_loop_stops_at_first_answer_witness:
  "snd (fetchAndAnalyzeMeeting env500json ''https://teams.example/m1'' ''Standup'') =
     [transcriptRequest ''https://teams.example/m1'',
      analyzeRequest candidate1 (Some sampleTranscript)]
   \<and> fst (fetchAndAnalyzeMeeting env500json ''https://teams.example/m1'' ''Standup'') =
       Inr \<lparr>success = True, data = Some sampleTranscript,
            analyzeResponse = Some (JObj [(''message'', JStr ''boom'')]),
            error = Some (JStr
              ''Analysis failed: boom, but transcript was fetched successfully'')\<rparr>"
proof -
  let ?body = "JObj [(''success'', JBool True), (''data'', sampleTranscript)]"
  let ?first = "\<lparr>resp_status = 200, resp_json = Inr ?body\<rparr>"
  let ?j = "JObj [(''message'', JStr ''boom'')]"
  let ?reply = "\<lparr>resp_status = 500, resp_json = Inr ?j\<rparr>"
  have h1: "fetch env500json (transcriptRequest ''https://teams.example/m1'') = Inr ?first"
    by (simp add: env500json_def example_defs)
  have h2: "resp_json ?first = Inr ?body" by simp
  have h3: "truthy (getProp ?body ''success'')" by simp
  have h4: "getAnalyzeApiUrls env500json = [] @ candidate1 # [candidate2, candidate3]"
    by (simp add: env500json_def scripted_urls)
  have h5: "\<forall>v\<in>set []. \<not> answers env500json (getProp ?body ''data'') v" by simp
  have h6: "fetch env500json (analyzeRequest candidate1 (getProp ?body ''data'')) = Inr ?reply"
    by (simp add: env500json_def example_defs)
  have h7: "resp_json ?reply = Inr ?j" by simp
  have h8: "\<not> ok ?reply" by (simp add: ok_def)
  have h9: "orDefault (chain (Some ?j) ''message'') ''Unknown error'' = Some ''boom''"
    by (simp add: orDefault_def)
  show ?thesis
    using analyze_loop_stops_at_first_answer [OF h1 h2 h3 h4 h5 h6 h7, of "''Standup''" "''boom''"]
      h8 h9
    by simp
qed

text \<open>
  As stated in the specification, every response stops the loop, whatever its status. A
  first candidate that responds HTTP 500 with a body that is not JSON does not stop it:
  the second candidate is requested, and its answer is the result.
\<close>

theorem unparseable_500_advances:
  "fetch env500text (transcriptRequest ''https://teams.example/m1'') = fetched sampleTranscript
   \<and> fetch env500text (analyzeRequest candidate1 (Some sampleTranscript)) = unparseable 500
   \<and> map req_url (snd (fetchAndAnalyzeMeeting env500text ''https://teams.example/m1'' ''Standup''))
       = [fetchUrl, candidate1, candidate2]
   \<and> fst (fetchAndAnalyzeMeeting env500text ''https://teams.example/m1'' ''Standup'')
       = Inr \<lparr>success = True, data = Some sampleTranscript, analyzeResponse = Some (JObj []),
              error = None\<rparr>"
  by (simp add: env500text_def example_defs fetchAndAnalyzeMeeting_def
      fetchAndAnalyzeMeeting_try_def initialState_def afterLoop_def ok_def logTranscript_def
      logSection_def logEntry_def orDefault_def decimal_1 Let_def)

text \<open>
  C2. When the body of the transcript response is an object with \<open>success: false\<close>, the
  result is \<open>{success: false, error}\<close> and the only request issued is the transcript
  request: no candidate of the analyze phase is requested. The error is the message of
  the body when that message is truthy; when the message is absent or falsy (the empty
  string, for one) it is the default \<open>Failed to fetch transcript\<close>.
\<close>

theorem failed_fetch_stops_before_analysis:
  assumes "fetch e (transcriptRequest meetingUrl) = Inr r0" and "resp_json r0 = Inr (JObj kv)"
    and "map_of kv ''success'' = Some (JBool False)"
  shows "(\<forall>m. map_of kv ''message'' = Some m \<and> truthy (Some m) \<longrightarrow>
            fetchAndAnalyzeMeeting e meetingUrl meetingTitle =
              (Inr \<lparr>success = False, data = None, analyzeResponse = None, error = Some m\<rparr>,
               [transcriptRequest meetingUrl]))
         \<and> (\<not> truthy (map_of kv ''message'') \<longrightarrow>
            fetchAndAnalyzeMeeting e meetingUrl meetingTitle =
              (Inr \<lparr>success = False, data = None, analyzeResponse = None,
                    error = Some (JStr ''Failed to fetch transcript'')\<rparr>,
               [transcriptRequest meetingUrl]))"
proof -
  have res: "fetchAndAnalyzeMeeting e meetingUrl meetingTitle =
           (Inr \<lparr>success = False, data = None, analyzeResponse = None,
                 error = Some (orElse (map_of kv ''message'')
                                 (JStr ''Failed to fetch transcript''))\<rparr>,
            [transcriptRequest meetingUrl])"
    using assms
    by (simp add: fetchAndAnalyzeMeeting_def fetchAndAnalyzeMeeting_try_def Let_def)
  have "orElse (map_of kv ''message'') (JStr ''Failed to fetch transcript'') = m"
    if "map_of kv ''message'' = Some m" and "truthy (Some m)" for m
    using that by simp
  moreover have "orElse (map_of kv ''message'') (JStr ''Failed to fetch transcript'')
                 = JStr ''Failed to fetch transcript''"
    if "\<not> truthy (map_of kv ''message'')"
    using that by (cases "map_of kv ''message''") simp_all
  ultimately show ?thesis using res by simp
qed

theorem failed_fetch_stops_before_analysis_witness:
  "fetchAndAnalyzeMeeting envNoTranscript ''https://teams.example/m1'' ''Standup'' =
     (Inr \<lparr>success = False, data = None, analyzeResponse = None,
           error = Some (JStr ''Transcript not found'')\<rparr>,
      [transcriptRequest ''https://teams.example/m1''])
   \<and> fetchAndAnalyzeMeeting envEmptyMessage ''https://teams.example/m1'' ''Standup'' =
     (Inr \<lparr>success = False, data = None, analyzeResponse = None,
           error = Some (JStr ''Failed to fetch transcript'')\<rparr>,
      [transcriptRequest ''https://teams.example/m1''])"
proof -
  let ?kv = "[(''success'', JBool False), (''message'', JStr ''Transcript not found'')]"
  let ?first = "\<lparr>resp_status = 200, resp_json = Inr (JObj ?kv)\<rparr>"
  have h1: "fetch envNoTranscript (transcriptRequest ''https://teams.example/m1'') = Inr ?first"
    by (simp add: envNoTranscript_def example_defs)
  have h2: "resp_json ?first = Inr (JObj ?kv)" by simp
  have h3: "map_of ?kv ''success'' = Some (JBool False)" by simp
  have h4: "map_of ?kv ''message'' = Some (JStr ''Transcript not found'')
            \<and> truthy (Some (JStr ''Transcript not found''))"
    by simp
  let ?kw = "[(''success'', JBool False), (''message'', JStr [])]"
  let ?other = "\<lparr>resp_status = 200, resp_json = Inr (JObj ?kw)\<rparr>"
  have k1: "fetch envEmptyMessage (transcriptRequest ''https://teams.example/m1'') = Inr ?other"
    by (simp add: envEmptyMessage_def example_defs)
  have k2: "resp_json ?other = Inr (JObj ?kw)" by simp
  have k3: "map_of ?kw ''success'' = Some (JBool False)" by simp
  have k4: "\<not> truthy (map_of ?kw ''message'')" by simp
  note told = failed_fetch_stops_before_analysis
    [OF h1 h2 h3, of "''Standup''", THEN conjunct1, rule_format, OF h4]
  note silent = failed_fetch_stops_before_analysis
    [OF k1 k2 k3, of "''Standup''", THEN conjunct2, rule_format, OF k4]
  show ?thesis using told silent by simp
qed

text \<open>
  As stated in the specification the error is \<open>message ?? default\<close>, the message whenever
  the body has one. For the body \<open>{"success": false, "message": ""}\<close> the code reports
  the default and not the message.
\<close>

theorem empty_message_gives_default:
  "fetch envEmptyMessage (transcriptRequest ''https://teams.example/m1'')
     = replied 200 (JObj [(''success'', JBool False), (''message'', JStr [])])
   \<and> fst (fetchAndAnalyzeMeeting envEmptyMessage ''https://teams.example/m1'' ''Standup'')
       = Inr \<lparr>success = False, data = None, analyzeResponse = None,
              error = Some (JStr ''Failed to fetch transcript'')\<rparr>
   \<and> fst (fetchAndAnalyzeMeeting envEmptyMessage ''https://teams.example/m1'' ''Standup'')
       \<noteq> Inr \<lparr>success = False, data = None, analyzeResponse = None,
              error = Some (JStr [])\<rparr>"
  by (simp add: envEmptyMessage_def example_defs fetchAndAnalyzeMeeting_def
      fetchAndAnalyzeMeeting_try_def Let_def)

text \<open>
  When the request to every candidate is rejected, \<open>analyzeResponse\<close> is never assigned
  and the result is the partial success with a non-empty error text.
\<close>

lemma rejected_requests_keep_transcript:
  assumes "fetch e (transcriptRequest meetingUrl) = Inr r0" and "resp_json r0 = Inr d"
    and "truthy (getProp d ''success'')"
    and "\<forall>u\<in>set (getAnalyzeApiUrls e).
           \<exists>err. fetch e (analyzeRequest u (getProp d ''data'')) = Inl err"
  shows "\<exists>last. last \<noteq> [] \<and>
          fst (fetchAndAnalyzeMeeting e meetingUrl meetingTitle) =
            Inr \<lparr>success = True, data = getProp d ''data'', analyzeResponse = None,
                 error = Some (JStr
                   (''Analysis failed - could not connect to any analyze API endpoints. Last error: ''
                    @ last @ ''. Transcript was fetched successfully.''))\<rparr>"
proof -
  let ?st = "analyze_loop e (getProp d ''data'') (getAnalyzeApiUrls e)
               (initialState (transcriptRequest meetingUrl))"
  have "st_analyzeResponse ?st = None"
    using loop_all_throw [OF assms(4), of "initialState (transcriptRequest meetingUrl)"]
    by (simp add: initialState_def)
  then have "afterLoop e (getProp d ''data'') ?st =
      Inr \<lparr>success = True, data = getProp d ''data'', analyzeResponse = None,
           error = Some (JStr
             (''Analysis failed - could not connect to any analyze API endpoints. Last error: ''
              @ lastErrorMessage (st_lastError ?st)
              @ ''. Transcript was fetched successfully.''))\<rparr>"
    by (simp add: afterLoop_def)
  then have "fst (fetchAndAnalyzeMeeting e meetingUrl meetingTitle) =
      Inr \<lparr>success = True, data = getProp d ''data'', analyzeResponse = None,
           error = Some (JStr
             (''Analysis failed - could not connect to any analyze API endpoints. Last error: ''
              @ lastErrorMessage (st_lastError ?st)
              @ ''. Transcript was fetched successfully.''))\<rparr>"
    using try_phase2 [OF assms(1-3), of meetingTitle] by (simp add: fetchAndAnalyzeMeeting_def)
  then show ?thesis using lastErrorMessage_nonempty by blast
qed

text \<open>
  C3. When the transcript fetch succeeds and every candidate fails at the transport
  level, the result is to be \<open>{success: true, data, error}\<close> with a non-empty error and no
  \<open>analyzeResponse\<close>; the comment before the test after the loop says \<open>If all URLs
  failed, return error\<close>. The code does so when every request is rejected
  (\<open>rejected_requests_keep_transcript\<close>), but not when a request resolves and the
  connection is lost while the body is read: \<open>analyzeResponse\<close> is assigned before the
  body is read, so the test \<open>if (!analyzeResponse)\<close> takes the failed candidate for an
  answer. With three candidates that each respond 200 and lose the body, all three are
  requested, every one fails, and the result is \<open>{success: true, data}\<close> with neither
  \<open>analyzeResponse\<close> nor an error.
\<close>

theorem lost_bodies_report_no_error:
  "fetch envBodiesLost (transcriptRequest ''https://teams.example/m1'') = fetched sampleTranscript
   \<and> fetch envBodiesLost (analyzeRequest candidate1 (Some sampleTranscript)) = bodyLost 200
   \<and> fetch envBodiesLost (analyzeRequest candidate2 (Some sampleTranscript)) = bodyLost 200
   \<and> fetch envBodiesLost (analyzeRequest candidate3 (Some sampleTranscript)) = bodyLost 200
   \<and> map req_url (snd (fetchAndAnalyzeMeeting envBodiesLost ''https://teams.example/m1'' ''Standup''))
       = [fetchUrl, candidate1, candidate2, candidate3]
   \<and> fst (fetchAndAnalyzeMeeting envBodiesLost ''https://teams.example/m1'' ''Standup'')
       = Inr \<lparr>success = True, data = Some sampleTranscript, analyzeResponse = None,
              error = None\<rparr>"
  by (simp add: envBodiesLost_def example_defs fetchAndAnalyzeMeeting_def
      fetchAndAnalyzeMeeting_try_def initialState_def afterLoop_def ok_def logTranscript_def
      logSection_def logEntry_def orDefault_def decimal_1 Let_def)

text \<open>
  When the stopping candidate responds with a status outside 200-299 and the message of
  its body (or, without a truthy message, the default) converts to a string, the result
  is the partial success with the parsed body as \<open>analyzeResponse\<close> and the error text
  \<open>Analysis failed: <message>, but transcript was fetched successfully\<close>.
\<close>

lemma non_2xx_answer_attaches_body:
  assumes "fetch e (transcriptRequest meetingUrl) = Inr r0" and "resp_json r0 = Inr d"
    and "truthy (getProp d ''success'')"
    and "getAnalyzeApiUrls e = pre @ u # post"
    and "\<forall>v\<in>set pre. \<not> answers e (getProp d ''data'') v"
    and "fetch e (analyzeRequest u (getProp d ''data'')) = Inr r" and "resp_json r = Inr j"
    and "\<not> ok r"
    and "orDefault (chain (Some j) ''message'') ''Unknown error'' = Some m"
  shows "fst (fetchAndAnalyzeMeeting e meetingUrl meetingTitle) =
           Inr \<lparr>success = True, data = getProp d ''data'', analyzeResponse = Some j,
                error = Some (JStr (''Analysis failed: '' @ m
                                    @ '', but transcript was fetched successfully''))\<rparr>"
proof -
  let ?st = "analyze_loop e (getProp d ''data'') (getAnalyzeApiUrls e)
               (initialState (transcriptRequest meetingUrl))"
  note st = loop_stopped [OF assms(4,5,6,7), of "transcriptRequest meetingUrl"]
  have "afterLoop e (getProp d ''data'') ?st =
      Inr \<lparr>success = True, data = getProp d ''data'', analyzeResponse = Some j,
           error = Some (JStr (''Analysis failed: '' @ m
                               @ '', but transcript was fetched successfully''))\<rparr>"
    using st(1,2) assms(8,9) by (simp add: afterLoop_def)
  then show ?thesis
    using try_phase2 [OF assms(1-3), of meetingTitle] by (simp add: fetchAndAnalyzeMeeting_def)
qed

text \<open>
  C4. When the transcript fetch succeeds and the stopping candidate responds with a
  status outside 200-299, the result is to be \<open>{success: true, data, analyzeResponse,
  error}\<close> with the parsed body attached; the comment in that branch says \<open>Still return
  success with transcript data even if analysis fails\<close>. The code does so when the
  message converts to a string (\<open>non_2xx_answer_attaches_body\<close>), but the message is of
  type \<open>unknown\<close> and the error text is built from it unguarded: for a first candidate
  that responds HTTP 500 with the body \<open>{"message": {"toString": 1}}\<close> the template
  literal raises a \<open>TypeError\<close>, and the result is \<open>{success: false, error}\<close> without the
  transcript and without the body.
\<close>

theorem unconvertible_message_fails:
  "fetch envOddMessage (transcriptRequest ''https://teams.example/m1'') = fetched sampleTranscript
   \<and> fetch envOddMessage (analyzeRequest candidate1 (Some sampleTranscript))
     = replied 500 (JObj [(''message'', JObj [(''toString'', JNum ''1'')])])
   \<and> fst (fetchAndAnalyzeMeeting envOddMessage ''https://teams.example/m1'' ''Standup'')
       = Inr \<lparr>success = False, data = None, analyzeResponse = None,
              error = Some (JStr ''Cannot convert object to primitive value'')\<rparr>"
  by (simp add: envOddMessage_def example_defs fetchAndAnalyzeMeeting_def
      fetchAndAnalyzeMeeting_try_def initialState_def afterLoop_def ok_def orDefault_def
      typeError_def Let_def)

text \<open>
  C5. When the transcript fetch succeeds with a transcript of the declared shape
  \<open>TranscriptData\<close> and the stopping candidate, the first whose request resolves and
  whose body parses as JSON, responds with a status in 200-299, the result is
  \<open>{success: true, data, analyzeResponse}\<close> without an error, with the body of the
  stopping candidate as \<open>analyzeResponse\<close>. In particular, when the request to the first
  candidate is rejected and the second responds 200 with a JSON body, the result has no
  error and carries the body of the second candidate.
\<close>

theorem ok_answer_has_no_error:
  assumes "fetch e (transcriptRequest meetingUrl) = Inr r0" and "resp_json r0 = Inr d"
    and "truthy (getProp d ''success'')"
    and "transcriptShaped (getProp d ''data'')"
    and "getAnalyzeApiUrls e = pre @ u # post"
    and "\<forall>v\<in>set pre. \<not> answers e (getProp d ''data'') v"
    and "fetch e (analyzeRequest u (getProp d ''data'')) = Inr r" and "resp_json r = Inr j"
    and "ok r"
  shows "fst (fetchAndAnalyzeMeeting e meetingUrl meetingTitle) =
           Inr \<lparr>success = True, data = getProp d ''data'', analyzeResponse = Some j,
                error = None\<rparr>"
proof -
  let ?st = "analyze_loop e (getProp d ''data'') (getAnalyzeApiUrls e)
               (initialState (transcriptRequest meetingUrl))"
  note st = loop_stopped [OF assms(5,6,7,8), of "transcriptRequest meetingUrl"]
  have "logTranscript e (getProp d ''data'') = None"
    using assms(4) by (rule logTranscript_shaped)
  then have "afterLoop e (getProp d ''data'') ?st =
      Inr \<lparr>success = True, data = getProp d ''data'', analyzeResponse = Some j, error = None\<rparr>"
    using st(1,2) assms(9) by (simp add: afterLoop_def)
  then show ?thesis
    using try_phase2 [OF assms(1-3), of meetingTitle] by (simp add: fetchAndAnalyzeMeeting_def)
qed

theorem ok_answer_has_no_error_witness:
  "fst (fetchAndAnalyzeMeeting envSecond200 ''https://teams.example/m1'' ''Standup'') =
     Inr \<lparr>success = True,
          data = getProp (JObj [(''success'', JBool True), (''data'', sampleTranscript)]) ''data'',
          analyzeResponse = Some (JObj [(''data'', JObj [(''mode'', JStr ''test'')])]),
          error = None\<rparr>"
proof -
  let ?body = "JObj [(''success'', JBool True), (''data'', sampleTranscript)]"
  let ?first = "\<lparr>resp_status = 200, resp_json = Inr ?body\<rparr>"
  let ?j = "JObj [(''data'', JObj [(''mode'', JStr ''test'')])]"
  let ?reply = "\<lparr>resp_status = 200, resp_json = Inr ?j\<rparr>"
  have h1: "fetch envSecond200 (transcriptRequest ''https://teams.example/m1'') = Inr ?first"
    by (simp add: envSecond200_def example_defs)
  have h2: "resp_json ?first = Inr ?body" by simp
  have h3: "truthy (getProp ?body ''success'')" by simp
  have h4: "transcriptShaped (getProp ?body ''data'')"
    by (simp add: transcriptShaped_def sectionShaped_def entryShaped_def stringField_def
        sampleTranscript_def)
  have h5: "getAnalyzeApiUrls envSecond200 = [candidate1] @ candidate2 # [candidate3]"
    by (simp add: envSecond200_def scripted_urls)
  have h6: "\<forall>v\<in>set [candidate1]. \<not> answers envSecond200 (getProp ?body ''data'') v"
    by (simp add: answers_def envSecond200_def example_defs)
  have h7: "fetch envSecond200 (analyzeRequest candidate2 (getProp ?body ''data'')) = Inr ?reply"
    by (simp add: envSecond200_def example_defs)
  have h8: "resp_json ?reply = Inr ?j" by simp
  have h9: "ok ?reply" by (simp add: ok_def)
  show ?thesis
    by (rule ok_answer_has_no_error [OF h1 h2 h3 h4 h5 h6 h7 h8 h9])
qed

text \<open>
  As stated in the specification, a second candidate that responds 200 after a rejected
  first one always gives a result without error that carries its body. When the body of
  that response is not JSON the loop goes on to the third candidate; here the third
  responds HTTP 500 with a JSON body, and the result carries that body and an error.
\<close>

theorem unparseable_200_is_passed_over:
  "fetch envSecondUnparseable (transcriptRequest ''https://teams.example/m1'')
     = fetched sampleTranscript
   \<and> fetch envSecondUnparseable (analyzeRequest candidate1 (Some sampleTranscript))
     = Inl (ErrorObject ''Failed to fetch'')
   \<and> fetch envSecondUnparseable (analyzeRequest candidate2 (Some sampleTranscript))
     = unparseable 200
   \<and> map req_url
       (snd (fetchAndAnalyzeMeeting envSecondUnparseable ''https://teams.example/m1'' ''Standup''))
       = [fetchUrl, candidate1, candidate2, candidate3]
   \<and> fst (fetchAndAnalyzeMeeting envSecondUnparseable ''https://teams.example/m1'' ''Standup'')
       = Inr \<lparr>success = True, data = Some sampleTranscript,
              analyzeResponse = Some (JObj [(''message'', JStr ''boom'')]),
              error = Some (JStr
                ''Analysis failed: boom, but transcript was fetched successfully'')\<rparr>"
  by (simp add: envSecondUnparseable_def example_defs fetchAndAnalyzeMeeting_def
      fetchAndAnalyzeMeeting_try_def initialState_def afterLoop_def ok_def orDefault_def
      Let_def)

section \<open>The public boundary\<close>

text \<open>
  C6. \<open>fetchAndAnalyzeMeeting\<close> never rejects: for every environment it resolves with a
  result object. Every exception of the \<open>try\<close> block is turned into
  \<open>{success: false, error: <message>}\<close>; in particular a rejected transcript request and
  a transcript response whose body does not parse, after which no further request is
  issued.
\<close>

theorem fetchAndAnalyzeMeeting_never_rejects:
  "(\<exists>result. fst (fetchAndAnalyzeMeeting e meetingUrl meetingTitle) = Inr result)
   \<and> (\<forall>err calls. fetchAndAnalyzeMeeting_try e meetingUrl meetingTitle = (Inl err, calls) \<longrightarrow>
         fetchAndAnalyzeMeeting e meetingUrl meetingTitle =
           (Inr \<lparr>success = False, data = None, analyzeResponse = None,
                 error = Some (JStr (errorMessage err))\<rparr>, calls))
   \<and> (\<forall>err. fetch e (transcriptRequest meetingUrl) = Inl err \<longrightarrow>
         fetchAndAnalyzeMeeting e meetingUrl meetingTitle =
           (Inr \<lparr>success = False, data = None, analyzeResponse = None,
                 error = Some (JStr (errorMessage err))\<rparr>, [transcriptRequest meetingUrl]))
   \<and> (\<forall>r err. fetch e (transcriptRequest meetingUrl) = Inr r \<and> resp_json r = Inl err \<longrightarrow>
         fetchAndAnalyzeMeeting e meetingUrl meetingTitle =
           (Inr \<lparr>success = False, data = None, analyzeResponse = None,
                 error = Some (JStr (errorMessage err))\<rparr>, [transcriptRequest meetingUrl]))"
proof (intro conjI allI impI)
  show "\<exists>result. fst (fetchAndAnalyzeMeeting e meetingUrl meetingTitle) = Inr result"
    by (cases "fetchAndAnalyzeMeeting_try e meetingUrl meetingTitle")
       (auto simp: fetchAndAnalyzeMeeting_def split: sum.splits)
next
  fix err calls
  assume "fetchAndAnalyzeMeeting_try e meetingUrl meetingTitle = (Inl err, calls)"
  then show "fetchAndAnalyzeMeeting e meetingUrl meetingTitle =
           (Inr \<lparr>success = False, data = None, analyzeResponse = None,
                 error = Some (JStr (errorMessage err))\<rparr>, calls)"
    by (simp add: fetchAndAnalyzeMeeting_def)
next
  fix err
  assume "fetch e (transcriptRequest meetingUrl) = Inl err"
  then show "fetchAndAnalyzeMeeting e meetingUrl meetingTitle =
           (Inr \<lparr>success = False, data = None, analyzeResponse = None,
                 error = Some (JStr (errorMessage err))\<rparr>, [transcriptRequest meetingUrl])"
    by (simp add: fetchAndAnalyzeMeeting_def fetchAndAnalyzeMeeting_try_def Let_def)
next
  fix r err
  assume "fetch e (transcriptRequest meetingUrl) = Inr r \<and> resp_json r = Inl err"
  then show "fetchAndAnalyzeMeeting e meetingUrl meetingTitle =
           (Inr \<lparr>success = False, data = None, analyzeResponse = None,
                 error = Some (JStr (errorMessage err))\<rparr>, [transcriptRequest meetingUrl])"
    by (simp add: fetchAndAnalyzeMeeting_def fetchAndAnalyzeMeeting_try_def Let_def)
qed

theorem fetchAndAnalyzeMeeting_never_rejects_witness:
  "fetchAndAnalyzeMeeting envOffline ''https://teams.example/m1'' ''Standup'' =
     (Inr \<lparr>success = False, data = None, analyzeResponse = None,
           error = Some (JStr ''Failed to fetch'')\<rparr>,
      [transcriptRequest ''https://teams.example/m1''])
   \<and> fetchAndAnalyzeMeeting envHtmlBody ''https://teams.example/m1'' ''Standup'' =
     (Inr \<lparr>success = False, data = None, analyzeResponse = None,
           error = Some (JStr ''Unexpected token < in JSON'')\<rparr>,
      [transcriptRequest ''https://teams.example/m1''])"
proof -
  have h1: "fetch envOffline (transcriptRequest ''https://teams.example/m1'')
              = Inl (ErrorObject ''Failed to fetch'')"
    by (simp add: envOffline_def example_defs)
  let ?reply = "\<lparr>resp_status = 502, resp_json = Inl (ErrorObject ''Unexpected token < in JSON'')\<rparr>"
  have h2: "fetch envHtmlBody (transcriptRequest ''https://teams.example/m1'') = Inr ?reply
            \<and> resp_json ?reply = Inl (ErrorObject ''Unexpected token < in JSON'')"
    by (simp add: envHtmlBody_def example_defs)
  note offline = fetchAndAnalyzeMeeting_never_rejects
    [of envOffline "''https://teams.example/m1''" "''Standup''",
     THEN conjunct2, THEN conjunct2, THEN conjunct1, rule_format, OF h1]
  note html = fetchAndAnalyzeMeeting_never_rejects
    [of envHtmlBody "''https://teams.example/m1''" "''Standup''",
     THEN conjunct2, THEN conjunct2, THEN conjunct2, rule_format, OF h2]
  show ?thesis using offline html by simp
qed

section \<open>checkAuthStatus\<close>

text \<open>
  C7. \<open>checkAuthStatus\<close> never rejects: for every environment it resolves with a value,
  and when the request is rejected or the body does not parse that value is
  \<open>{authenticated: false}\<close>.
\<close>

theorem checkAuthStatus_never_rejects:
  "(\<exists>status. checkAuthStatus e = Inr status)
   \<and> (\<forall>err. fetch e (authStatusRequest e) = Inl err \<longrightarrow>
         checkAuthStatus e = Inr (JObj [(''authenticated'', JBool False)]))
   \<and> (\<forall>r err. fetch e (authStatusRequest e) = Inr r \<and> resp_json r = Inl err \<longrightarrow>
         checkAuthStatus e = Inr (JObj [(''authenticated'', JBool False)]))"
  by (auto simp: checkAuthStatus_def checkAuthStatus_try_def split: sum.splits)

theorem checkAuthStatus_never_rejects_witness:
  "checkAuthStatus envOffline = Inr (JObj [(''authenticated'', JBool False)])
   \<and> checkAuthStatus envHtmlBody = Inr (JObj [(''authenticated'', JBool False)])"
proof -
  have h1: "fetch envOffline (authStatusRequest envOffline)
              = Inl (ErrorObject ''Failed to fetch'')"
    by (simp add: envOffline_def example_defs)
  let ?reply = "\<lparr>resp_status = 502, resp_json = Inl (ErrorObject ''Unexpected token < in JSON'')\<rparr>"
  have h2: "fetch envHtmlBody (authStatusRequest envHtmlBody) = Inr ?reply
            \<and> resp_json ?reply = Inl (ErrorObject ''Unexpected token < in JSON'')"
    by (simp add: envHtmlBody_def example_defs)
  show ?thesis
    using checkAuthStatus_never_rejects [of envOffline]
          checkAuthStatus_never_rejects [of envHtmlBody] h1 h2
    by blast
qed

text \<open>
  C10. \<open>checkAuthStatus\<close> does not look at the status of the response: whenever the body
  parses as a JSON value other than \<open>null\<close>, that value is returned as it is, with or
  without a field \<open>authenticated\<close>. The \<open>catch\<close> clause, which yields
  \<open>{authenticated: false}\<close>, runs exactly when the request is rejected, the body does not
  parse, or the body is \<open>null\<close>.
\<close>

theorem checkAuthStatus_returns_body:
  "(\<forall>r d. fetch e (authStatusRequest e) = Inr r \<and> resp_json r = Inr d \<and> d \<noteq> JNull \<longrightarrow>
        checkAuthStatus e = Inr d)
   \<and> ((\<exists>err. checkAuthStatus_try e = Inl err) =
        ((\<exists>err. fetch e (authStatusRequest e) = Inl err)
         \<or> (\<exists>r err. fetch e (authStatusRequest e) = Inr r \<and> resp_json r = Inl err)
         \<or> (\<exists>r. fetch e (authStatusRequest e) = Inr r \<and> resp_json r = Inr JNull)))
   \<and> (\<forall>err. checkAuthStatus_try e = Inl err \<longrightarrow>
         checkAuthStatus e = Inr (JObj [(''authenticated'', JBool False)]))"
  by (auto simp: checkAuthStatus_def checkAuthStatus_try_def split: sum.splits)

theorem checkAuthStatus_returns_body_witness:
  "checkAuthStatus envAuth401 = Inr (JObj [(''error'', JStr ''unauthorized'')])"
proof -
  let ?d = "JObj [(''error'', JStr ''unauthorized'')]"
  let ?reply = "\<lparr>resp_status = 401, resp_json = Inr ?d\<rparr>"
  have h: "fetch envAuth401 (authStatusRequest envAuth401) = Inr ?reply \<and> resp_json ?reply = Inr ?d
           \<and> ?d \<noteq> JNull"
    by (simp add: envAuth401_def example_defs)
  show ?thesis
    using checkAuthStatus_returns_body [of envAuth401] h by blast
qed

text \<open>
  The body \<open>null\<close> parses as JSON, yet it is not returned: logging \<open>data.authenticated\<close>
  raises, and the result is the fallback.
\<close>

theorem null_body_gives_fallback:
  "fetch envAuthNull (authStatusRequest envAuthNull) = replied 200 JNull
   \<and> checkAuthStatus envAuthNull = Inr (JObj [(''authenticated'', JBool False)])
   \<and> checkAuthStatus envAuthNull \<noteq> Inr JNull"
  by (simp add: envAuthNull_def example_defs checkAuthStatus_def checkAuthStatus_try_def)

section \<open>The candidate URLs\<close>

text \<open>
  C9. The flag \<open>test_mode\<close> is read from the query string of the page: it is true exactly
  when the parameter is absent or equal to \<open>true\<close>, so it is true by default. The
  candidates are the three base URLs, in order, each followed by
  \<open>?test_mode=<flag>&llm_timeout=60&user_lookup_timeout=30\<close>.
\<close>

theorem analyze_urls_carry_query:
  "getTestModeFromUrl e =
     (map_of (searchParams e) ''test_mode'' = None
      \<or> map_of (searchParams e) ''test_mode'' = Some ''true'')
   \<and> (map_of (searchParams e) ''test_mode'' = None \<longrightarrow> getTestModeFromUrl e)
   \<and> getAnalyzeApiUrls e =
       map (\<lambda>url. url @ ''?test_mode='' @ (if getTestModeFromUrl e then ''true'' else ''false'')
                     @ ''&llm_timeout=60&user_lookup_timeout=30'')
         [''http://localhost:8000/api/v1/analyze'',
          ''http://127.0.0.1:8000/api/v1/analyze'',
          ''http://0.0.0.0:8000/api/v1/analyze'']"
  by (auto simp: getTestModeFromUrl_def getAnalyzeApiUrls_def baseUrls_def Let_def)

theorem analyze_urls_carry_query_witness:
  "getTestModeFromUrl envOffline
   \<and> getAnalyzeApiUrls envOffline =
       [''http://localhost:8000/api/v1/analyze?test_mode=true&llm_timeout=60&user_lookup_timeout=30'',
        ''http://127.0.0.1:8000/api/v1/analyze?test_mode=true&llm_timeout=60&user_lookup_timeout=30'',
        ''http://0.0.0.0:8000/api/v1/analyze?test_mode=true&llm_timeout=60&user_lookup_timeout=30'']
   \<and> \<not> getTestModeFromUrl envProduction
   \<and> getAnalyzeApiUrls envProduction =
       [''http://localhost:8000/api/v1/analyze?test_mode=false&llm_timeout=60&user_lookup_timeout=30'',
        ''http://127.0.0.1:8000/api/v1/analyze?test_mode=false&llm_timeout=60&user_lookup_timeout=30'',
        ''http://0.0.0.0:8000/api/v1/analyze?test_mode=false&llm_timeout=60&user_lookup_timeout=30'']"
proof -
  have h1: "map_of (searchParams envOffline) ''test_mode'' = None"
    by (simp add: envOffline_def scripted_def)
  have h2: "map_of (searchParams envProduction) ''test_mode'' = Some ''false''"
    by (simp add: envProduction_def scripted_def)
  show ?thesis
    using analyze_urls_carry_query [of envOffline] analyze_urls_carry_query [of envProduction]
      h1 h2
    by simp
qed

section \<open>The transcript export\<close>

text \<open>
  C8. The export of a transcript has the file name \<open>transcript-<id>.txt\<close>, with \<open>meeting\<close>
  in place of a missing id. When the transcript has at least one section and no exported
  text (subject, formatted date, transcript ids, and the times, speaker and text of the
  entries) contains a line break, reading the exported text back gives exactly one block
  for each section, in order: three header lines, an empty line, and then one line
  \<open>[<startTime> - <endTime>] <speaker: ><text>\<close> for each entry of the section in the
  original order, with \<open>00:00\<close> and \<open>No content\<close> for missing fields (a section without
  entries gives the line \<open>No transcript entries available\<close> instead).
\<close>

theorem export_reads_back:
  assumes "transcripts td = Some ts" and "ts \<noteq> []"
    and "plainHeader formatTime td" and "list_all plainSection ts"
  shows "\<exists>content.
           downloadTranscript formatTime (Some td) =
             Some (content,
                   ''transcript-'' @ strOr (Option.bind (meetingInfo td) meetingId) ''meeting''
                   @ ''.txt'')
           \<and> readBack content =
               map (\<lambda>(index, transcript).
                      headerLines formatTime td index transcript @ entryLines transcript)
                 (enumerate 0 ts)
           \<and> length (readBack content) = length ts"
proof -
  have "map (blockLines formatTime td) (enumerate 0 ts) =
        map (\<lambda>(index, transcript).
               headerLines formatTime td index transcript @ entryLines transcript)
          (enumerate 0 ts)"
    by (auto simp: blockLines_def)
  with readBack_export [OF assms] show ?thesis by (simp add: downloadTranscript_def)
qed

theorem export_reads_back_witness:
  "\<exists>content.
     downloadTranscript (\<lambda>s. s) (Some sampleExport) = Some (content, ''transcript-m1.txt'')
     \<and> readBack content =
         [[''Meeting: Standup'', ''Date: Unknown'', ''Transcript ID: t1'', [],
           ''[00:01 - 00:02] Ann: Hello'', ''[00:00 - 00:00] Hi''],
          [''Meeting: Standup'', ''Date: Unknown'', ''Transcript ID: transcript-2'', [],
           ''[00:00 - 00:00] Hi'', ''[00:01 - 00:02] Ann: Hello'']]
     \<and> length (readBack content) = 2"
proof -
  let ?ts = "[Some \<lparr>transcriptId = Some ''t1'', createdDateTime = None,
                    entries = Some [Some helloEntry, Some bareEntry]\<rparr>,
              Some \<lparr>transcriptId = None, createdDateTime = None,
                    entries = Some [Some bareEntry, Some helloEntry]\<rparr>]"
  have h1: "transcripts sampleExport = Some ?ts" by (simp add: sampleExport_def)
  have h2: "?ts \<noteq> []" by simp
  have h3: "plainHeader (\<lambda>s. s) sampleExport"
    by (simp add: plainHeader_def plainOpt_def plain_def dateText_def sampleExport_def)
  have h4: "list_all plainSection ?ts"
    by (simp add: plainSection_def plainEntry_def plainOpt_def plain_def entriesOf_def
        helloEntry_def bareEntry_def)
  show ?thesis
    using export_reads_back [OF h1 h2 h3 h4]
    by (simp add: enumerate_eq_zip headerLines_def entryLines_def entriesOf_def formatEntry_def
        dateText_def sampleExport_def helloEntry_def bareEntry_def decimal_1 decimal_2 numeral_2_eq_2)
qed

text \<open>
  Without the conditions the round trip fails. An entry whose text contains the divider
  makes one section read back as two blocks, and a transcript without sections is
  exported as one block of placeholder text.
\<close>

theorem divider_in_text_splits_block:
  "length (the (transcripts dividerExport)) = 1
   \<and> length (readBack (exportContent (\<lambda>s. s) dividerExport)) = 2
   \<and> length (the (transcripts emptyExport)) = 0
   \<and> readBack (exportContent (\<lambda>s. s) emptyExport) = [[''No transcript data available'']]"
  by (simp add: dividerExport_def dividerEntry_def emptyExport_def exportContent_def
      sectionHeader_def sectionEntries_def formatEntry_def readBack_def divider_def nl_def
      decimal_1 Let_def)

end
